theory Spec2Isabelle
  imports Main "HOL-Library.Word"
begin

section \<open>Runtime values\<close>

text \<open>
  The server is TypeScript on Node. A \<open>Buffer\<close> is modelled as a list of bytes, a
  value that may be \<open>undefined\<close> or \<open>null\<close> as an \<open>option\<close>, and a thrown exception
  as the left summand of a sum type.

  A JavaScript string is a sequence of UTF-16 code units. The strings whose code
  units the program or a library looks at, which are the passwords, the stored hash
  records and the character set of the generated passwords, are modelled as the list
  of their code units, a \<open>jstring\<close>. The strings that the program only passes on,
  compares as a whole or builds from digits (emails, identifiers, tokens, roles, the
  texts of messages) are modelled as a \<open>string\<close>.
\<close>

type_synonym byte = "8 word"

type_synonym code_unit = "16 word"

type_synonym jstring = "code_unit list"

text \<open>The code unit of a character of a literal, and a literal as a JavaScript string.\<close>

definition unit_of :: "char \<Rightarrow> code_unit" where
  "unit_of c = word_of_nat (of_char c)"

definition js :: "string \<Rightarrow> jstring" where
  "js s = map unit_of s"

text \<open>The delimiter of a stored hash record, the full stop.\<close>

definition dot :: code_unit where
  "dot = unit_of CHR ''.''"

datatype exn =
    TypeError       \<comment> \<open>\<open>ERR_INVALID_ARG_TYPE\<close>: an argument of the wrong type, here \<open>undefined\<close>\<close>
  | RangeError      \<comment> \<open>\<open>ERR_CRYPTO_TIMING_SAFE_EQUAL_LENGTH\<close>\<close>
  | StorageError    \<comment> \<open>whatever the storage layer throws\<close>
  | SessionError    \<comment> \<open>whatever the session layer reports to the callback of \<open>req.login\<close>\<close>

text \<open>JavaScript's \<open>!x\<close> on a value that is a string, \<open>undefined\<close> or \<open>null\<close>.\<close>

definition falsy :: "'a list option \<Rightarrow> bool" where
  "falsy x = (case x of None \<Rightarrow> True | Some s \<Rightarrow> s = [])"

section \<open>Strings, digits and hexadecimal buffers\<close>

text \<open>
  The digit characters of \<open>Number.prototype.toString(radix)\<close> and of
  \<open>Buffer.prototype.toString("hex")\<close>: \<open>0..9\<close>, then \<open>a..z\<close>.
\<close>

definition digit_char :: "nat \<Rightarrow> char" where
  "digit_char n = (if n < 10 then char_of (48 + n) else char_of (87 + n))"

text \<open>
  The value of a hexadecimal digit as \<open>Buffer.from(s, "hex")\<close> reads it: both
  cases of the letters are accepted, any other character is not a digit. Node's
  decoder narrows each 16-bit code unit to its low byte before it looks the digit
  up, so a code unit above 255 whose low byte is the code of a digit counts as that
  digit (U+0162 reads as \<open>b\<close>).
\<close>

definition hexval :: "code_unit \<Rightarrow> nat option" where
  "hexval c = (let k = unat c mod 256 in
     if 48 \<le> k \<and> k \<le> 57 then Some (k - 48)
     else if 97 \<le> k \<and> k \<le> 102 then Some (k - 87)
     else if 65 \<le> k \<and> k \<le> 70 then Some (k - 55)
     else None)"

text \<open>\<open>buf.toString("hex")\<close>: two lower-case digits per byte, high nibble first.\<close>

definition hex_of_byte :: "byte \<Rightarrow> jstring" where
  "hex_of_byte b = [unit_of (digit_char (unat b div 16)), unit_of (digit_char (unat b mod 16))]"

definition toHex :: "byte list \<Rightarrow> jstring" where
  "toHex bs = concat (map hex_of_byte bs)"

text \<open>
  \<open>Buffer.from(s, "hex")\<close>: the string is read two code units at a time; decoding
  stops at the first pair that is not two hexadecimal digits, and a single trailing
  code unit is dropped. The result is the bytes decoded so far; it never throws on a
  string.
\<close>

fun fromHex :: "jstring \<Rightarrow> byte list" where
  "fromHex (a # b # cs) =
     (case hexval a of
        None \<Rightarrow> []
      | Some h \<Rightarrow> (case hexval b of
          None \<Rightarrow> []
        | Some l \<Rightarrow> word_of_nat (16 * h + l) # fromHex cs))"
| "fromHex [a] = []"
| "fromHex [] = []"

text \<open>
  \<open>s.split(d)\<close> for a separator of one code unit: the pieces between the
  occurrences of \<open>d\<close>, so always at least one piece (\<open>"".split(".")\<close> is \<open>[""]\<close>).
\<close>

fun split_on :: "'a \<Rightarrow> 'a list \<Rightarrow> 'a list list" where
  "split_on d [] = [[]]"
| "split_on d (c # cs) =
     (if c = d then [] # split_on d cs
      else (case split_on d cs of
              [] \<Rightarrow> [[c]]
            | p # ps \<Rightarrow> (c # p) # ps))"

text \<open>Array destructuring \<open>[hashed, salt] = parts\<close>: a missing element is \<open>undefined\<close>.\<close>

fun element :: "'a list \<Rightarrow> nat \<Rightarrow> 'a option" where
  "element [] n = None"
| "element (x # xs) 0 = Some x"
| "element (x # xs) (Suc n) = element xs n"

section \<open>Credential hasher (module \<open>localAuth\<close>, file \<open>part_003\<close>, lines 17 to 30)\<close>

text \<open>
  Node's \<open>crypto\<close> module is a library outside the repository. Its key-derivation
  function is a parameter of the model: \<open>kdf password salt keylen i\<close> is byte \<open>i\<close>
  of the key of length \<open>keylen\<close> that \<open>scrypt\<close> derives, so that the derived key is
  a function of password, salt and key length and has \<open>keylen\<close> bytes, which is all
  the code relies on. (\<open>scrypt\<close> reads both strings in their UTF-8 encoding.) \<open>scrypt\<close> rejects a password or a salt that is \<open>undefined\<close>
  with a \<open>TypeError\<close>.
\<close>

type_synonym kdf = "jstring \<Rightarrow> jstring \<Rightarrow> nat \<Rightarrow> nat \<Rightarrow> byte"

definition scryptAsync :: "kdf \<Rightarrow> jstring option \<Rightarrow> jstring option \<Rightarrow> nat \<Rightarrow> exn + byte list" where
  "scryptAsync f password salt keylen =
     (case password of
        None \<Rightarrow> Inl TypeError
      | Some p \<Rightarrow> (case salt of
          None \<Rightarrow> Inl TypeError
        | Some s \<Rightarrow> Inr (map (f p s keylen) [0..<keylen])))"

text \<open>
  \<open>randomBytes(n)\<close> returns \<open>n\<close> bytes of the entropy source; the source is a
  parameter (\<open>src i\<close> is the \<open>i\<close>-th byte this call draws).
\<close>

definition randomBytes :: "(nat \<Rightarrow> byte) \<Rightarrow> nat \<Rightarrow> byte list" where
  "randomBytes src n = map src [0..<n]"

text \<open>\<open>timingSafeEqual(a, b)\<close> throws when the lengths differ and compares otherwise.\<close>

definition timingSafeEqual :: "byte list \<Rightarrow> byte list \<Rightarrow> exn + bool" where
  "timingSafeEqual a b = (if length a \<noteq> length b then Inl RangeError else Inr (a = b))"

text \<open>
  \<^verbatim>\<open>
  async function hashPassword(password: string): Promise<string> {
    const salt = randomBytes(16).toString("hex");
    const buf = (await scryptAsync(password, salt, 64)) as Buffer;
    return `${buf.toString("hex")}.${salt}`;
  }
  \<close>
  The type annotation is erased at run time and the register handler passes a field of
  an unchecked request body, so the argument may be \<open>undefined\<close>.
\<close>

definition hashPassword :: "kdf \<Rightarrow> (nat \<Rightarrow> byte) \<Rightarrow> jstring option \<Rightarrow> exn + jstring" where
  "hashPassword f src password =
     (let salt = toHex (randomBytes src 16) in
      case scryptAsync f password (Some salt) 64 of
        Inl e \<Rightarrow> Inl e
      | Inr buf \<Rightarrow> Inr (toHex buf @ [dot] @ salt))"

text \<open>
  \<^verbatim>\<open>
  async function comparePasswords(supplied: string, stored: string): Promise<boolean> {
    const [hashed, salt] = stored.split(".");
    const hashedBuf = Buffer.from(hashed, "hex");
    const suppliedBuf = (await scryptAsync(supplied, salt, 64)) as Buffer;
    return timingSafeEqual(hashedBuf, suppliedBuf);
  }
  \<close>
  \<open>split\<close> returns at least one piece, so \<open>hashed\<close> is always a string.
\<close>

definition comparePasswords :: "kdf \<Rightarrow> jstring \<Rightarrow> jstring \<Rightarrow> exn + bool" where
  "comparePasswords f supplied stored =
     (let parts = split_on dot stored;
          salt = element parts 1
      in case element parts 0 of
           None \<Rightarrow> Inl TypeError
         | Some hashed \<Rightarrow>
             (let hashedBuf = fromHex hashed in
              case scryptAsync f (Some supplied) salt 64 of
                Inl e \<Rightarrow> Inl e
              | Inr suppliedBuf \<Rightarrow> timingSafeEqual hashedBuf suppliedBuf))"

section \<open>Numbers and substrings in identifiers and tokens\<close>

text \<open>
  \<open>n.toString(radix)\<close> for a non-negative integer and a radix from 2 to 36 (the code
  uses 10, through template interpolation, and 36).
\<close>

fun to_radix :: "nat \<Rightarrow> nat \<Rightarrow> string" where
  "to_radix b n =
     (if b < 2 \<or> n < b then [digit_char n]
      else to_radix b (n div b) @ [digit_char (n mod b)])"

text \<open>\<open>s.substr(start, len)\<close> with non-negative arguments.\<close>

definition substr :: "string \<Rightarrow> nat \<Rightarrow> nat \<Rightarrow> string" where
  "substr s start len = take len (drop start s)"

text \<open>\<open>s.charAt(i)\<close>: the empty string when \<open>i\<close> is out of range.\<close>

definition charAt :: "'a list \<Rightarrow> nat \<Rightarrow> 'a list" where
  "charAt s i = (if i < length s then [s ! i] else [])"

section \<open>Accounts and the storage interface\<close>

text \<open>
  A row of the \<open>users\<close> table, with the columns that the authentication code reads.
  Columns can be \<open>null\<close>. (The table has further columns, such as the consent and
  notification flags, the SFTP settings and the licence type; the handlers below
  write some of them and read none.)
\<close>

record user =
  user_id :: string
  email :: "string option"
  firstName :: "string option"
  lastName :: "string option"
  password :: "jstring option"
  role :: "string option"

text \<open>
  The module \<open>./storage\<close> is imported by \<open>part_003\<close> and \<open>part_004\<close>, and its
  source is not part of the files at hand. The handlers are therefore parametric in
  it: a storage is four operations over a state \<open>'s\<close>; each may throw, a lookup
  returns \<open>undefined\<close> when there is no row, and a write returns the row and the new
  state. \<open>updateUser s i h\<close> stands for \<open>storage.updateUser(i, { password: h })\<close>,
  the only update the modelled handlers make.
\<close>

record 's storage =
  getUser :: "'s \<Rightarrow> string \<Rightarrow> exn + user option"
  getUserByEmail :: "'s \<Rightarrow> string \<Rightarrow> exn + user option"
  upsertUser :: "'s \<Rightarrow> user \<Rightarrow> exn + user \<times> 's"
  updateUser :: "'s \<Rightarrow> string \<Rightarrow> jstring \<Rightarrow> exn + user option \<times> 's"

subsection \<open>A storage modelled from the specification\<close>

text \<open>
  Modelled from the spec: the lowercasing behind "a unique index on lowercased email"
  (section 6), on the letters \<open>A\<close> to \<open>Z\<close>; the storage module that fixes it is
  missing.
\<close>

definition lower_char :: "char \<Rightarrow> char" where
  "lower_char c = (let k = (of_char c :: nat) in
     if 65 \<le> k \<and> k \<le> 90 then char_of (k + 32) else c)"

text \<open>Modelled from the spec: the lowercased form of an email (section 6).\<close>

definition lower :: "string \<Rightarrow> string" where
  "lower s = map lower_char s"

text \<open>
  Modelled from the spec: the state of the missing storage module, "a principals
  table/collection keyed by id" (section 6) as the list of its rows, and whether the
  backing store is available (\<open>StorageUnavailable\<close>, section 7).
\<close>

record db =
  rows :: "user list"
  online :: bool

text \<open>Modelled from the spec: the key of the principals table, a row's \<open>id\<close>.\<close>

definition has_id :: "string \<Rightarrow> user \<Rightarrow> bool" where
  "has_id i u = (user_id u = i)"

text \<open>
  Modelled from the spec: the match of the missing \<open>storage.getUserByEmail\<close>,
  \<open>email\<close> as a "case-insensitive lookup key" (section 3).
\<close>

definition has_email :: "string \<Rightarrow> user \<Rightarrow> bool" where
  "has_email e u = (case email u of None \<Rightarrow> False | Some e' \<Rightarrow> lower e' = lower e)"

text \<open>
  Modelled from the spec: \<open>storage.getUser\<close>, the lookup of a Principal by its
  \<open>id\<close> in "a principals table/collection keyed by id" (sections 3 and 6); it fails
  with \<open>StorageUnavailable\<close> (section 7) when the backing store is down.
\<close>

definition mem_getUser :: "db \<Rightarrow> string \<Rightarrow> exn + user option" where
  "mem_getUser d i = (if online d then Inr (find (has_id i) (rows d)) else Inl StorageError)"

text \<open>
  Modelled from the spec: \<open>storage.getUserByEmail\<close>, the lookup by \<open>email\<close>, a
  "unique, case-insensitive lookup key" with "a unique index on lowercased email"
  (sections 3 and 6).
\<close>

definition mem_getUserByEmail :: "db \<Rightarrow> string \<Rightarrow> exn + user option" where
  "mem_getUserByEmail d e =
     (if online d then Inr (find (has_email e) (rows d)) else Inl StorageError)"

text \<open>
  Modelled from the spec: the "unique index on lowercased email" (section 6) of the
  missing storage module, as the test whether another row has the email of \<open>u\<close>.
\<close>

definition email_taken :: "db \<Rightarrow> user \<Rightarrow> bool" where
  "email_taken d u =
     (case email u of
        None \<Rightarrow> False
      | Some e \<Rightarrow> list_ex (\<lambda>v. user_id v \<noteq> user_id u \<and> has_email e v) (rows d))"

text \<open>
  Modelled from the spec: the write of the missing \<open>storage.upsertUser\<close> to a table
  "keyed by id": the row replaces the row of its \<open>id\<close>, or is added.
\<close>

definition put_row :: "user \<Rightarrow> user list \<Rightarrow> user list" where
  "put_row u rs =
     (if list_ex (has_id (user_id u)) rs
      then map (\<lambda>v. if has_id (user_id u) v then u else v) rs
      else rs @ [u])"

text \<open>
  Modelled from the spec: \<open>storage.upsertUser\<close>, which persists a Principal under
  its \<open>id\<close> (inserting the row, or replacing the row of that \<open>id\<close>) and returns it;
  the unique index on the lowercased email rejects a row whose email another row has.
\<close>

definition mem_upsertUser :: "db \<Rightarrow> user \<Rightarrow> exn + user \<times> db" where
  "mem_upsertUser d u =
     (if \<not> online d then Inl StorageError
      else if email_taken d u then Inl StorageError
      else Inr (u, d\<lparr>rows := put_row u (rows d)\<rparr>))"

text \<open>
  Modelled from the spec: \<open>storage.updateUser(id, { password })\<close>, which "updates the
  Principal's \<open>passwordHash\<close>" (section 4.3) and returns the updated row, or
  \<open>undefined\<close> when no row has that \<open>id\<close>.
\<close>

definition mem_updateUser :: "db \<Rightarrow> string \<Rightarrow> jstring \<Rightarrow> exn + user option \<times> db" where
  "mem_updateUser d i h =
     (if \<not> online d then Inl StorageError
      else case find (has_id i) (rows d) of
             None \<Rightarrow> Inr (None, d)
           | Some u \<Rightarrow>
               Inr (Some (u\<lparr>password := Some h\<rparr>),
                    d\<lparr>rows := map (\<lambda>v. if has_id i v then v\<lparr>password := Some h\<rparr> else v) (rows d)\<rparr>))"

text \<open>
  Modelled from the spec: the missing module \<open>./storage\<close> as a whole, the four
  operations above.
\<close>

definition mem_storage :: "db storage" where
  "mem_storage =
     \<lparr>getUser = mem_getUser, getUserByEmail = mem_getUserByEmail,
      upsertUser = mem_upsertUser, updateUser = mem_updateUser\<rparr>"

section \<open>Requests, responses and the environment of a request\<close>

datatype jvalue =
    JString string
  | JUnits jstring     \<comment> \<open>a string given by its code units\<close>
  | JBool bool
  | JNull
  | JObject "(string \<times> jvalue) list"

datatype payload =
    Json "(string \<times> jvalue) list"   \<comment> \<open>\<open>res.json({...})\<close>\<close>
  | Plain string                        \<comment> \<open>a text body written by a library\<close>
  | Empty

record response =
  status :: nat
  body :: payload

definition jopt :: "string option \<Rightarrow> jvalue" where
  "jopt x = (case x of None \<Rightarrow> JNull | Some s \<Rightarrow> JString s)"

definition jopt_units :: "jstring option \<Rightarrow> jvalue" where
  "jopt_units x = (case x of None \<Rightarrow> JNull | Some s \<Rightarrow> JUnits s)"

text \<open>The fields of a user object as \<open>res.json\<close> serialises them.\<close>

definition user_fields :: "user \<Rightarrow> (string \<times> jvalue) list" where
  "user_fields u =
     [(''id'', JString (user_id u)), (''email'', jopt (email u)),
      (''firstName'', jopt (firstName u)), (''lastName'', jopt (lastName u)),
      (''password'', jopt_units (password u)), (''role'', jopt (role u))]"

text \<open>A field of a JSON response, as a client reads it.\<close>

definition field :: "string \<Rightarrow> response \<Rightarrow> jvalue option" where
  "field k r = (case body r of Json fs \<Rightarrow> map_of fs k | Plain t \<Rightarrow> None | Empty \<Rightarrow> None)"

definition message :: "nat \<Rightarrow> string \<Rightarrow> response" where
  "message code msg = \<lparr>status = code, body = Json [(''message'', JString msg)]\<rparr>"

text \<open>
  What a handler takes from outside the program while it serves one request: the
  clock, the random number generator and the entropy source, and whether the session
  layer accepts a login.
  \<^item> \<open>now\<close> is \<open>Date.now()\<close>;
  \<^item> \<open>random36\<close> is the text of \<open>Math.random().toString(36)\<close>, such as \<open>0.4fzyo82mvyr\<close>;
  \<^item> \<open>entropy\<close> is the source of \<open>randomBytes\<close>;
  \<^item> \<open>draw i\<close> is the value of the \<open>i\<close>-th \<open>Math.random()\<close> of a loop, scaled to an
    integer; the model reduces it modulo the length it indexes, as
    \<open>Math.floor(Math.random() * n)\<close> lies below \<open>n\<close>;
  \<^item> \<open>login_ok\<close> tells whether \<open>req.login\<close> calls back without an error.
\<close>

record env =
  now :: nat
  random36 :: string
  entropy :: "nat \<Rightarrow> byte"
  draw :: "nat \<Rightarrow> nat"
  login_ok :: bool

section \<open>Sessions (\<open>part_003\<close>, lines 84 to 99 and 153 to 159)\<close>

text \<open>
  The three ways a Passport callback is completed: \<open>done(err)\<close>,
  \<open>done(null, false, info)\<close> and \<open>done(null, user)\<close>.
\<close>

datatype completion =
    Done_error exn
  | Done_false "string option"
  | Done_user user

text \<open>\<^verbatim>\<open>passport.serializeUser((user, done) => { done(null, user.id); });\<close>\<close>

definition serializeUser :: "user \<Rightarrow> string" where
  "serializeUser u = user_id u"

text \<open>
  \<^verbatim>\<open>
  passport.deserializeUser(async (id: string, done) => {
    try {
      const user = await storage.getUser(id);
      if (!user) { return done(null, false); }
      done(null, user);
    } catch (error) {
      console.error("Error deserializing user:", error);
      done(null, false);
    }
  });
  \<close>
\<close>

definition deserializeUser :: "'s storage \<Rightarrow> 's \<Rightarrow> string \<Rightarrow> completion" where
  "deserializeUser sto s i =
     (case getUser sto s i of
        Inl error \<Rightarrow> Done_false None
      | Inr None \<Rightarrow> Done_false None
      | Inr (Some u) \<Rightarrow> Done_user u)"

text \<open>
  A session holds the serialised user, \<open>req.session.passport.user\<close>, or nothing.
  Passport's session strategy (a library) resolves it on every request: with no
  serialised user the request stays anonymous; otherwise it calls
  \<open>deserializeUser\<close>, and on \<open>done(err)\<close> passes the error on, on
  \<open>done(null, false)\<close> removes the serialised user from the session and leaves the
  request anonymous, and on \<open>done(null, user)\<close> sets \<open>req.user\<close>.
  The result is \<open>req.user\<close> and the session.
\<close>

type_synonym session = "string option"

definition passport_session :: "'s storage \<Rightarrow> 's \<Rightarrow> session \<Rightarrow> exn + user option \<times> session" where
  "passport_session sto s sess =
     (case sess of
        None \<Rightarrow> Inr (None, None)
      | Some i \<Rightarrow>
          (case deserializeUser sto s i of
             Done_error e \<Rightarrow> Inl e
           | Done_false info \<Rightarrow> Inr (None, None)
           | Done_user u \<Rightarrow> Inr (Some u, Some i)))"

text \<open>\<open>req.isAuthenticated()\<close>: whether \<open>req.user\<close> is set.\<close>

definition isAuthenticated_req :: "user option \<Rightarrow> bool" where
  "isAuthenticated_req req_user = (req_user \<noteq> None)"

text \<open>
  \<^verbatim>\<open>
  app.get("/api/auth/user", (req, res) => {
    if (req.isAuthenticated()) { res.json(req.user); }
    else { res.status(401).json({ message: "Not authenticated" }); }
  });
  \<close>
\<close>

definition get_auth_user :: "user option \<Rightarrow> response" where
  "get_auth_user req_user =
     (case req_user of
        Some u \<Rightarrow> \<lparr>status = 200, body = Json (user_fields u)\<rparr>
      | None \<Rightarrow> message 401 ''Not authenticated'')"

text \<open>
  The route as a client sees it: the session is resolved, then the handler runs. An
  error passed on by the session strategy reaches the framework's error handler,
  which answers 500.
\<close>

definition get_auth_user_route :: "'s storage \<Rightarrow> 's \<Rightarrow> session \<Rightarrow> response \<times> session" where
  "get_auth_user_route sto s sess =
     (case passport_session sto s sess of
        Inl e \<Rightarrow> (\<lparr>status = 500, body = Plain ''Internal Server Error''\<rparr>, sess)
      | Inr (req_user, sess') \<Rightarrow> (get_auth_user req_user, sess'))"

text \<open>
  \<open>req.login(user, callback)\<close> (a library) serialises the user into the session and
  calls back, with an error when the session cannot be established.
\<close>

definition req_login :: "env \<Rightarrow> user \<Rightarrow> exn + session" where
  "req_login e u = (if login_ok e then Inr (Some (serializeUser u)) else Inl SessionError)"

section \<open>Authenticator (\<open>part_003\<close>, lines 60 to 142)\<close>



text \<open>
  The identifier of a registered account:
  \<^verbatim>\<open>`local_${Date.now()}_${Math.random().toString(36).substr(2, 9)}`\<close>
\<close>

definition local_id :: "env \<Rightarrow> string" where
  "local_id e = ''local_'' @ to_radix 10 (now e) @ ''_'' @ substr (random36 e) 2 9"

text \<open>
  \<^verbatim>\<open>
  app.post("/api/auth/register", async (req, res) => {
    try {
      const { email, password, firstName, lastName } = req.body;
      const existingUser = await storage.getUserByEmail(email);
      if (existingUser) {
        return res.status(400).json({ message: "User already exists" });
      }
      const hashedPassword = await hashPassword(password);
      const user = await storage.upsertUser({
        id: `local_${Date.now()}_${Math.random().toString(36).substr(2, 9)}`,
        email, firstName, lastName,
        password: hashedPassword,
        role: "user",
        privacyConsent: true,
        emailNotificationsEnabled: true,
      });
      req.login(user, (err) => {
        if (err) {
          return res.status(500).json({ message: "Login failed after registration" });
        }
        res.status(201).json({ user, message: "Registration successful" });
      });
    } catch (error) {
      res.status(500).json({ message: "Registration failed" });
    }
  });
  \<close>
  The result is the response, the storage and the session. The body's \<open>email\<close> is a
  string (the storage interface is typed on strings); the other fields may be absent.
\<close>

definition post_auth_register ::
  "'s storage \<Rightarrow> kdf \<Rightarrow> env \<Rightarrow> 's \<Rightarrow> session
     \<Rightarrow> string \<Rightarrow> jstring option \<Rightarrow> string option \<Rightarrow> string option
     \<Rightarrow> response \<times> 's \<times> session" where
  "post_auth_register sto f e s sess email_in password_in firstName_in lastName_in =
     (case getUserByEmail sto s email_in of
        Inl error \<Rightarrow> (message 500 ''Registration failed'', s, sess)
      | Inr (Some existingUser) \<Rightarrow> (message 400 ''User already exists'', s, sess)
      | Inr None \<Rightarrow>
          (case hashPassword f (entropy e) password_in of
             Inl error \<Rightarrow> (message 500 ''Registration failed'', s, sess)
           | Inr hashedPassword \<Rightarrow>
               (case upsertUser sto s
                       \<lparr>user_id = local_id e, email = Some email_in,
                        firstName = firstName_in, lastName = lastName_in,
                        password = Some hashedPassword, role = Some ''user''\<rparr> of
                  Inl error \<Rightarrow> (message 500 ''Registration failed'', s, sess)
                | Inr (u, s') \<Rightarrow>
                    (case req_login e u of
                       Inl err \<Rightarrow> (message 500 ''Login failed after registration'', s', sess)
                     | Inr sess' \<Rightarrow>
                         (\<lparr>status = 201,
                           body = Json [(''user'', JObject (user_fields u)),
                                        (''message'', JString ''Registration successful'')]\<rparr>,
                          s', sess')))))"

section \<open>Password reset (\<open>part_003\<close>, lines 161 to 227)\<close>

definition reset_link_sent :: string where
  "reset_link_sent =
     ''Falls die E-Mail-Adresse registriert ist, wurde ein Reset-Link gesendet.''"

text \<open>
  \<^verbatim>\<open>Math.random().toString(36).substr(2, 15) + Date.now().toString(36)\<close>
\<close>

definition new_reset_token :: "env \<Rightarrow> string" where
  "new_reset_token e = substr (random36 e) 2 15 @ to_radix 36 (now e)"

text \<open>
  \<^verbatim>\<open>
  app.post("/api/auth/forgot-password", async (req, res) => {
    try {
      const { email } = req.body;
      if (!email) {
        return res.status(400).json({ message: "E-Mail-Adresse ist erforderlich" });
      }
      const user = await storage.getUserByEmail(email);
      if (!user) {
        // For security, don't reveal if email exists
        return res.json({ message: "Falls die E-Mail-Adresse registriert ist, ..." });
      }
      const resetToken = Math.random().toString(36).substr(2, 15) + Date.now().toString(36);
      // In production, save token to database with expiration
      // For now, we'll use a simple approach with email notification
      console.log(...);
      res.json({
        message: "Falls die E-Mail-Adresse registriert ist, ...",
        // For demo purposes, return the token (remove in production)
        resetToken: resetToken
      });
    } catch (error) {
      res.status(500).json({ message: "Passwort-Reset fehlgeschlagen" });
    }
  });
  \<close>
  The result is the response and the storage after the call.
\<close>

definition post_auth_forgot_password ::
  "'s storage \<Rightarrow> env \<Rightarrow> 's \<Rightarrow> string option \<Rightarrow> response \<times> 's" where
  "post_auth_forgot_password sto e s email_in =
     (case email_in of
        None \<Rightarrow> (message 400 ''E-Mail-Adresse ist erforderlich'', s)
      | Some em \<Rightarrow>
          if em = [] then (message 400 ''E-Mail-Adresse ist erforderlich'', s)
          else (case getUserByEmail sto s em of
                  Inl error \<Rightarrow> (message 500 ''Passwort-Reset fehlgeschlagen'', s)
                | Inr None \<Rightarrow> (message 200 reset_link_sent, s)
                | Inr (Some u) \<Rightarrow>
                    (\<lparr>status = 200,
                      body = Json [(''message'', JString reset_link_sent),
                                   (''resetToken'', JString (new_reset_token e))]\<rparr>,
                     s)))"

text \<open>The two texts with a letter outside ASCII, as UTF-8.\<close>

definition invalid_reset_link :: string where
  "invalid_reset_link = ''Ung'' @ [CHR 0xC3, CHR 0xBC] @ ''ltiger Reset-Link''"

definition reset_successful :: string where
  "reset_successful = ''Passwort erfolgreich zur'' @ [CHR 0xC3, CHR 0xBC] @ ''ckgesetzt''"

text \<open>
  \<^verbatim>\<open>
  app.post("/api/auth/reset-password", async (req, res) => {
    try {
      const { email, newPassword, resetToken } = req.body;
      if (!email || !newPassword || !resetToken) {
        return res.status(400).json({ message: "Alle Felder sind erforderlich" });
      }
      // In production, verify reset token from database
      // For now, we'll accept any token for demo purposes
      const user = await storage.getUserByEmail(email);
      if (!user) {
        return res.status(400).json({ message: "Ungueltiger Reset-Link" });
      }
      const hashedPassword = await hashPassword(newPassword);
      await storage.updateUser(user.id, { password: hashedPassword });
      res.json({ message: "Passwort erfolgreich zurueckgesetzt" });
    } catch (error) {
      res.status(500).json({ message: "Passwort-Reset fehlgeschlagen" });
    }
  });
  \<close>
  (In this listing the u-umlaut of the two German texts is written \<open>ue\<close>.)
\<close>

definition post_auth_reset_password ::
  "'s storage \<Rightarrow> kdf \<Rightarrow> env \<Rightarrow> 's \<Rightarrow> string option \<Rightarrow> jstring option \<Rightarrow> string option
     \<Rightarrow> response \<times> 's" where
  "post_auth_reset_password sto f e s email_in newPassword resetToken =
     (if falsy email_in \<or> falsy newPassword \<or> falsy resetToken
      then (message 400 ''Alle Felder sind erforderlich'', s)
      else (case email_in of
              None \<Rightarrow> (message 400 ''Alle Felder sind erforderlich'', s)
            | Some em \<Rightarrow>
                (case getUserByEmail sto s em of
                   Inl error \<Rightarrow> (message 500 ''Passwort-Reset fehlgeschlagen'', s)
                 | Inr None \<Rightarrow> (message 400 invalid_reset_link, s)
                 | Inr (Some u) \<Rightarrow>
                     (case hashPassword f (entropy e) newPassword of
                        Inl error \<Rightarrow> (message 500 ''Passwort-Reset fehlgeschlagen'', s)
                      | Inr hashedPassword \<Rightarrow>
                          (case updateUser sto s (user_id u) hashedPassword of
                             Inl error \<Rightarrow> (message 500 ''Passwort-Reset fehlgeschlagen'', s)
                           | Inr (updated, s') \<Rightarrow> (message 200 reset_successful, s'))))))"

section \<open>Authorization guard (\<open>part_003\<close>, lines 230 to 244, and the routes of \<open>part_004\<close>)\<close>

text \<open>A middleware either answers the request or calls \<open>next()\<close>.\<close>

datatype gate = Next | Respond response

text \<open>
  \<^verbatim>\<open>
  export const isAuthenticated = (req, res, next) => {
    if (req.isAuthenticated()) { return next(); }
    res.status(401).json({ message: "Unauthorized" });
  };
  \<close>
\<close>

definition isAuthenticated :: "user option \<Rightarrow> gate" where
  "isAuthenticated req_user =
     (if isAuthenticated_req req_user then Next else Respond (message 401 ''Unauthorized''))"

text \<open>
  \<^verbatim>\<open>
  const isAdmin = async (req, res, next) => {
    if (!req.user?.id) {
      return res.status(401).json({ message: "Unauthorized" });
    }
    try {
      const user = await storage.getUser(req.user.id);
      if (!user || user.role !== 'admin') {
        return res.status(403).json({ message: "Admin access required" });
      }
      next();
    } catch (error) {
      res.status(500).json({ message: "Internal server error" });
    }
  };
  \<close>
\<close>

definition isAdmin :: "'s storage \<Rightarrow> 's \<Rightarrow> user option \<Rightarrow> gate" where
  "isAdmin sto s req_user =
     (case req_user of
        None \<Rightarrow> Respond (message 401 ''Unauthorized'')
      | Some ru \<Rightarrow>
          if user_id ru = [] then Respond (message 401 ''Unauthorized'')
          else (case getUser sto s (user_id ru) of
                  Inl error \<Rightarrow> Respond (message 500 ''Internal server error'')
                | Inr None \<Rightarrow> Respond (message 403 ''Admin access required'')
                | Inr (Some u) \<Rightarrow>
                    if role u \<noteq> Some ''admin''
                    then Respond (message 403 ''Admin access required'')
                    else Next))"

text \<open>\<open>user?.role\<close>: \<open>undefined\<close> when there is no user.\<close>

definition optional_role :: "user option \<Rightarrow> string option" where
  "optional_role found = (case found of None \<Rightarrow> None | Some u \<Rightarrow> role u)"

text \<open>The text an error handler reports for a caught error; no property depends on it.\<close>

definition error_message :: "exn \<Rightarrow> string" where
  "error_message x =
     (case x of TypeError \<Rightarrow> ''TypeError'' | RangeError \<Rightarrow> ''RangeError''
      | StorageError \<Rightarrow> ''StorageError'' | SessionError \<Rightarrow> ''SessionError'')"

text \<open>
  The role check that opens the handler of \<open>GET /api/sftp/files\<close> (lines 94 to
  101), which runs behind \<open>isAuthenticated\<close>; \<open>Next\<close> stands for the rest of the
  handler. The same test, \<open>user?.role === "user"\<close>, opens every handler that is
  reserved to managers and administrators.
  \<^verbatim>\<open>
  app.get('/api/sftp/files', isAuthenticated, async (req: any, res) => {
    try {
      const userId = req.user.id;
      const user = await storage.getUser(userId);
      if (user?.role === "user") {
        return res.status(403).json({ message: "SFTP access requires manager or admin role" });
      }
      ...
    } catch (error) {
      res.status(500).json({ message: "Failed to list SFTP files", error: ... });
    }
  \<close>
\<close>

definition sftp_files_role_check :: "'s storage \<Rightarrow> 's \<Rightarrow> user \<Rightarrow> gate" where
  "sftp_files_role_check sto s req_user =
     (case getUser sto s (user_id req_user) of
        Inl error \<Rightarrow>
          Respond \<lparr>status = 500,
                   body = Json [(''message'', JString ''Failed to list SFTP files''),
                                (''error'', JString (error_message error))]\<rparr>
      | Inr found \<Rightarrow>
          if optional_role found = Some ''user''
          then Respond (message 403 ''SFTP access requires manager or admin role'')
          else Next)"

text \<open>
  The role check that opens the handler of \<open>DELETE /api/projects/:id\<close> (lines 382 to
  390), the inline form of an administrator-only gate:
  \<^verbatim>\<open>
      const user = await storage.getUser(userId);
      if (user?.role !== "admin") {
        return res.status(403).json({ message: "Insufficient permissions" });
      }
  \<close>
\<close>

definition delete_project_role_check :: "'s storage \<Rightarrow> 's \<Rightarrow> user \<Rightarrow> gate" where
  "delete_project_role_check sto s req_user =
     (case getUser sto s (user_id req_user) of
        Inl error \<Rightarrow> Respond (message 500 ''Failed to delete project'')
      | Inr found \<Rightarrow>
          if optional_role found \<noteq> Some ''admin''
          then Respond (message 403 ''Insufficient permissions'')
          else Next)"

subsection \<open>The role order of the specification\<close>

text \<open>
  Written from the words of the specification, to compare the gates of the code with:
  "role ordering is \<open>user < manager < admin\<close>; fails with \<open>Forbidden\<close> if
  \<open>principal.role\<close> ranks below \<open>minRole\<close>".
\<close>

datatype role_name = User | Manager | Admin

fun rank :: "role_name \<Rightarrow> nat" where
  "rank User = 0"
| "rank Manager = 1"
| "rank Admin = 2"

fun role_text :: "role_name \<Rightarrow> string" where
  "role_text User = ''user''"
| "role_text Manager = ''manager''"
| "role_text Admin = ''admin''"

datatype decision = Allowed | Forbidden

definition spec_requireRole :: "role_name \<Rightarrow> role_name \<Rightarrow> decision" where
  "spec_requireRole principal_role minRole =
     (if rank principal_role < rank minRole then Forbidden else Allowed)"

text \<open>How a gate of the code decides: it lets the request through, or answers 403.\<close>

definition decision_of :: "gate \<Rightarrow> decision option" where
  "decision_of g =
     (case g of
        Next \<Rightarrow> Some Allowed
      | Respond r \<Rightarrow> if status r = 403 then Some Forbidden else None)"

section \<open>User provisioning by an administrator (\<open>part_004\<close>, lines 1110 to 1179)\<close>

definition charset :: jstring where
  "charset = js ''abcdefghijklmnopqrstuvwxyzABCDEFGHIJKLMNOPQRSTUVWXYZ0123456789!@#$%&*''"

text \<open>
  \<^verbatim>\<open>
  function generateSecurePassword(): string {
    const charset = "abcdefghijklmnopqrstuvwxyzABCDEFGHIJKLMNOPQRSTUVWXYZ0123456789!@#$%&*";
    let password = "";
    for (let i = 0; i < 12; i++) {
      password += charset.charAt(Math.floor(Math.random() * charset.length));
    }
    return password;
  }
  \<close>
  The loop, from counter \<open>i\<close> and the password built so far:
\<close>

function generate_loop :: "(nat \<Rightarrow> nat) \<Rightarrow> nat \<Rightarrow> jstring \<Rightarrow> jstring" where
  "generate_loop d i pw =
     (if i < 12
      then generate_loop d (i + 1) (pw @ charAt charset (d i mod length charset))
      else pw)"
  by pat_completeness auto
termination
  by (relation "measure (\<lambda>(d, i, pw). 12 - i)") auto

definition generateSecurePassword :: "(nat \<Rightarrow> nat) \<Rightarrow> jstring" where
  "generateSecurePassword d = generate_loop d 0 []"

text \<open>\<open>x || fallback\<close> on a string that may be absent.\<close>

definition or_else :: "string option \<Rightarrow> string \<Rightarrow> string" where
  "or_else x fallback = (case x of None \<Rightarrow> fallback | Some v \<Rightarrow> if v = [] then fallback else v)"

text \<open>
  \<^verbatim>\<open>
  app.post("/api/admin/users", isAuthenticated, isAdmin, async (req: any, res) => {
    try {
      const { username, email, role, licenseType } = req.body;
      if (!username || !email) {
        return res.status(400).json({ message: "Username and email are required" });
      }
      const existingUser = await storage.getUser(username);
      if (existingUser) {
        return res.status(409).json({ message: "Username bereits vergeben" });
      }
      const temporaryPassword = generateSecurePassword();
      const userData = {
        id: username, username, email,
        role: role || 'user',
        licenseType: licenseType || 'basic',
        firstName: username, lastName: '',
        emailNotificationsEnabled: true,
        password: temporaryPassword, // Store password temporarily (in real app, hash it)
        createdAt: new Date(), updatedAt: new Date()
      };
      const newUser = await storage.upsertUser(userData);
      ... (the welcome e-mail; a failure to send it is caught and logged)
      const { password, ...userWithoutPassword } = newUser;
      res.status(201).json({
        ...userWithoutPassword,
        passwordSent: true,
        message: "Benutzer erstellt und Passwort per E-Mail versendet"
      });
    } catch (error) {
      res.status(500).json({ message: "Failed to create user" });
    }
  });
  \<close>
  The handler proper, behind the two middlewares. The result is the response and the
  storage after the call.
\<close>

definition userData :: "env \<Rightarrow> string \<Rightarrow> string \<Rightarrow> string option \<Rightarrow> user" where
  "userData e username email_in role_in =
     \<lparr>user_id = username, email = Some email_in,
      firstName = Some username, lastName = Some [],
      password = Some (generateSecurePassword (draw e)),
      role = Some (or_else role_in ''user'')\<rparr>"

definition post_admin_users ::
  "'s storage \<Rightarrow> env \<Rightarrow> 's \<Rightarrow> string option \<Rightarrow> string option \<Rightarrow> string option
     \<Rightarrow> response \<times> 's" where
  "post_admin_users sto e s username_in email_in role_in =
     (case username_in of
        None \<Rightarrow> (message 400 ''Username and email are required'', s)
      | Some username \<Rightarrow>
     (case email_in of
        None \<Rightarrow> (message 400 ''Username and email are required'', s)
      | Some em \<Rightarrow>
          if username = [] \<or> em = []
          then (message 400 ''Username and email are required'', s)
          else (case getUser sto s username of
                  Inl error \<Rightarrow> (message 500 ''Failed to create user'', s)
                | Inr (Some existingUser) \<Rightarrow> (message 409 ''Username bereits vergeben'', s)
                | Inr None \<Rightarrow>
                    (case upsertUser sto s (userData e username em role_in) of
                       Inl error \<Rightarrow> (message 500 ''Failed to create user'', s)
                     | Inr (newUser, s') \<Rightarrow>
                         (\<lparr>status = 201,
                           body = Json (filter (\<lambda>field. fst field \<noteq> ''password'')
                                          (user_fields newUser)
                                        @ [(''passwordSent'', JBool True),
                                           (''message'', JString
                                              ''Benutzer erstellt und Passwort per E-Mail versendet'')])\<rparr>,
                          s')))))"

section \<open>Sample inputs\<close>

text \<open>
  Concrete inputs on which the theorems below are instantiated. \<open>example_kdf\<close>
  stands in for \<open>scrypt\<close> there: its key depends on the length of the password only.
  \<open>example_record n\<close> is a well-formed hash record whose key is 64 bytes of value
  \<open>n\<close>, so under \<open>example_kdf\<close> it is a record of every password of \<open>n\<close> code
  units.
\<close>

definition example_kdf :: kdf where
  "example_kdf p s n i = word_of_nat (length p)"

definition example_record :: "nat \<Rightarrow> jstring" where
  "example_record n = toHex (replicate 64 (word_of_nat n)) @ [dot] @ js ''5a17''"

definition alice :: user where
  "alice = \<lparr>user_id = ''local_1_alice'', email = Some ''alice@example.com'',
            firstName = Some ''Alice'', lastName = None,
            password = Some (example_record 15), role = Some ''user''\<rparr>"

definition bob :: user where
  "bob = \<lparr>user_id = ''bob'', email = Some ''bob@example.com'',
          firstName = Some ''bob'', lastName = Some [],
          password = Some (example_record 9), role = Some ''manager''\<rparr>"

definition root :: user where
  "root = \<lparr>user_id = ''root'', email = Some ''root@example.com'',
           firstName = Some ''root'', lastName = Some [],
           password = Some (example_record 11), role = Some ''admin''\<rparr>"

definition example_db :: db where
  "example_db = \<lparr>rows = [alice, bob, root], online = True\<rparr>"

definition example_env :: env where
  "example_env =
     \<lparr>now = 1751328000123, random36 = ''0.4fzyo82mvyr'',
      entropy = (\<lambda>i. word_of_nat (7 * i + 1)), draw = (\<lambda>i. 5 * i + 3),
      login_ok = True\<rparr>"

text \<open>
  Two malformed records whose key part still decodes to 64 bytes: one with text that
  is not hexadecimal after 128 digits and with a third piece, and one whose first
  code unit is U+0162, which the decoder reads as \<open>b\<close>.
\<close>

definition trailing_text :: jstring where
  "trailing_text = toHex (replicate 64 6) @ js ''zz'' @ [dot] @ js ''5a17'' @ [dot] @ js ''more''"

definition wide_digit :: jstring where
  "wide_digit = [0x0162, unit_of CHR ''b''] @ toHex (replicate 63 0xBB) @ [dot] @ js ''5a17''"


definition dave_db :: db where
  "dave_db =
     fst (snd (post_auth_register mem_storage example_kdf example_env example_db None
                 ''dave@example.com'' (Some (js ''correcthorse123'')) (Some ''Dave'') None))"

section \<open>Facts about the string functions\<close>

declare to_radix.simps [simp del]
declare generate_loop.simps [simp del]

lemma unat_unit_of: "unat (unit_of c) = of_char c"
proof -
  have "(of_char c :: nat) mod 256 = of_char c" by (rule of_char_mod_256)
  then have "(of_char c :: nat) < 256" by (metis mod_less_divisor zero_less_numeral)
  then have "(of_char c :: nat) < 65536" by linarith
  then show ?thesis by (simp add: unit_of_def unat_of_nat take_bit_nat_eq_self)
qed

lemma unit_of_inj: "unit_of a = unit_of b \<Longrightarrow> a = b"
proof -
  assume "unit_of a = unit_of b"
  then have "unat (unit_of a) = unat (unit_of b)" by simp
  then show "a = b" by (simp add: unat_unit_of)
qed

lemma length_js [simp]: "length (js s) = length s"
  by (simp add: js_def)

lemma hexval_digit_char: "n < 16 \<Longrightarrow> hexval (unit_of (digit_char n)) = Some n"
  by (auto simp: hexval_def unat_unit_of digit_char_def Let_def)

lemma hexval_dot: "hexval dot = None"
  by (simp add: hexval_def dot_def unat_unit_of)

lemma digit_char_not_dot: "n < 16 \<Longrightarrow> unit_of (digit_char n) \<noteq> dot"
  using hexval_digit_char [of n] hexval_dot by auto

lemma nibbles_small: "unat (b :: byte) div 16 < 16" "unat b mod 16 < 16"
proof -
  have "unat b < 256" using unsigned_less [of b] by simp
  then show "unat b div 16 < 16" by simp
  show "unat b mod 16 < 16" by simp
qed

lemma fromHex_toHex_append: "fromHex (toHex bs @ rest) = bs @ fromHex rest"
  by (induction bs) (simp_all add: toHex_def hex_of_byte_def hexval_digit_char nibbles_small)

lemma fromHex_toHex_id: "fromHex (toHex bs) = bs"
  using fromHex_toHex_append [of bs "[]"] by simp

lemma dot_notin_hex_of_byte: "dot \<notin> set (hex_of_byte b)"
  using digit_char_not_dot [OF nibbles_small(1), of b] digit_char_not_dot [OF nibbles_small(2), of b]
  by (auto simp: hex_of_byte_def)

lemma dot_notin_toHex: "dot \<notin> set (toHex bs)"
  by (simp add: toHex_def dot_notin_hex_of_byte)

lemma length_toHex: "length (toHex bs) = 2 * length bs"
  by (induction bs) (simp_all add: toHex_def hex_of_byte_def)

lemma split_on_nonempty: "split_on d s \<noteq> []"
  by (induction s) (auto split: list.splits)

lemma split_on_no_sep: "d \<notin> set s \<Longrightarrow> split_on d s = [s]"
  by (induction s) auto

lemma split_on_first_sep: "d \<notin> set h \<Longrightarrow> split_on d (h @ d # r) = h # split_on d r"
  by (induction h) (auto split: list.splits simp: split_on_nonempty)

lemma hd_split_on: "hd (split_on d s) = takeWhile (\<lambda>c. c \<noteq> d) s"
  by (induction s) (auto split: list.splits simp: split_on_nonempty)

lemma first_piece:
  assumes "d \<in> set s"
  shows "s = takeWhile (\<lambda>c. c \<noteq> d) s @ d # tl (dropWhile (\<lambda>c. c \<noteq> d) s)"
proof -
  from assms have ne: "dropWhile (\<lambda>c. c \<noteq> d) s \<noteq> []" by (simp add: dropWhile_eq_Nil_conv)
  then have "hd (dropWhile (\<lambda>c. c \<noteq> d) s) = d"
    using hd_dropWhile [of "\<lambda>c. c \<noteq> d" s] by simp
  with ne have "dropWhile (\<lambda>c. c \<noteq> d) s = d # tl (dropWhile (\<lambda>c. c \<noteq> d) s)"
    by (cases "dropWhile (\<lambda>c. c \<noteq> d) s") simp_all
  then show ?thesis
    using takeWhile_dropWhile_id [of "\<lambda>c. c \<noteq> d" s] by simp
qed

lemma split_on_pieces:
  assumes "d \<in> set s"
  shows "split_on d s
           = takeWhile (\<lambda>c. c \<noteq> d) s # split_on d (tl (dropWhile (\<lambda>c. c \<noteq> d) s))"
proof -
  have "d \<notin> set (takeWhile (\<lambda>c. c \<noteq> d) s)"
    by (auto dest: set_takeWhileD)
  from split_on_first_sep [OF this, of "tl (dropWhile (\<lambda>c. c \<noteq> d) s)"] first_piece [OF assms]
  show ?thesis by simp
qed

lemma hashPassword_Some:
  "hashPassword f src (Some p) =
     Inr (toHex (map (f p (toHex (randomBytes src 16)) 64) [0..<64])
          @ [dot] @ toHex (randomBytes src 16))"
  by (simp add: hashPassword_def scryptAsync_def Let_def)

lemma split_record:
  "split_on dot (toHex k @ dot # toHex t) = [toHex k, toHex t]"
proof -
  have "split_on dot (toHex k @ dot # toHex t) = toHex k # split_on dot (toHex t)"
    by (rule split_on_first_sep) (rule dot_notin_toHex)
  then show ?thesis by (simp add: split_on_no_sep dot_notin_toHex)
qed

lemma comparePasswords_no_delimiter:
  "dot \<notin> set stored \<Longrightarrow> comparePasswords f supplied stored = Inl TypeError"
  by (simp add: comparePasswords_def split_on_no_sep scryptAsync_def)

lemma comparePasswords_delimiter:
  assumes "dot \<in> set stored"
  shows "comparePasswords f supplied stored =
           timingSafeEqual (fromHex (takeWhile (\<lambda>c. c \<noteq> dot) stored))
             (map (f supplied
                     (takeWhile (\<lambda>c. c \<noteq> dot) (tl (dropWhile (\<lambda>c. c \<noteq> dot) stored))) 64)
                  [0..<64])"
proof -
  let ?rest = "tl (dropWhile (\<lambda>c. c \<noteq> dot) stored)"
  obtain t ts where r: "split_on dot ?rest = t # ts"
    using split_on_nonempty [of dot ?rest] by (cases "split_on dot ?rest") auto
  then have t: "t = takeWhile (\<lambda>c. c \<noteq> dot) ?rest"
    using hd_split_on [of dot ?rest] by simp
  have "split_on dot stored = takeWhile (\<lambda>c. c \<noteq> dot) stored # t # ts"
    using split_on_pieces [OF assms] r by simp
  then show ?thesis
    by (simp add: comparePasswords_def scryptAsync_def t)
qed

lemma comparePasswords_delimited:
  assumes "dot \<notin> set hashed"
  shows "comparePasswords f supplied (hashed @ dot # rest) =
           timingSafeEqual (fromHex hashed)
             (map (f supplied (takeWhile (\<lambda>c. c \<noteq> dot) rest) 64) [0..<64])"
proof -
  obtain t ts where r: "split_on dot rest = t # ts"
    using split_on_nonempty [of dot rest] by (cases "split_on dot rest") auto
  then have t: "t = takeWhile (\<lambda>c. c \<noteq> dot) rest"
    using hd_split_on [of dot rest] by simp
  have "split_on dot (hashed @ dot # rest) = hashed # t # ts"
    using split_on_first_sep [OF assms, of rest] r by simp
  then show ?thesis
    by (simp add: comparePasswords_def scryptAsync_def t)
qed

lemma hash_verifies:
  "hashPassword f src (Some p) = Inr h \<Longrightarrow> comparePasswords f p h = Inr True"
  by (auto simp: hashPassword_Some comparePasswords_def split_record scryptAsync_def
                 fromHex_toHex_id timingSafeEqual_def)

lemma example_key:
  "map (example_kdf p s n) xs = replicate (length xs) (word_of_nat (length p))"
  by (induction xs) (simp_all add: example_kdf_def)

lemma example_compare:
  "comparePasswords example_kdf supplied (example_record n)
     = Inr (replicate 64 (word_of_nat n) = replicate 64 (word_of_nat (length supplied) :: byte))"
proof -
  have "dot \<notin> set (toHex (replicate 64 (word_of_nat n :: byte)))"
    by (rule dot_notin_toHex)
  from comparePasswords_delimited [OF this, of example_kdf supplied "js ''5a17''"]
  show ?thesis
    by (simp add: example_record_def fromHex_toHex_id timingSafeEqual_def example_key)
qed


lemma unit_of_eq [simp]: "(unit_of a = unit_of b) = (a = b)"
  by (auto dest: unit_of_inj)

text \<open>
  C5. Hashing round-trips with verification: for every password \<open>p\<close>, every
  key-derivation function and every salt drawn from the entropy source,
  \<open>hashPassword\<close> returns a record, and \<open>comparePasswords\<close> of \<open>p\<close> against that
  record returns \<open>true\<close>: the salt read back from the record is the salt that was
  used, and the bytes decoded from the record are the derived bytes.
\<close>

theorem C5_hash_then_compare:
  "\<exists>stored. hashPassword f src (Some p) = Inr stored
     \<and> comparePasswords f p stored = Inr True"
proof -
  define salt where "salt = toHex (randomBytes src 16)"
  define buf where "buf = map (f p salt 64) [0..<64]"
  have h: "hashPassword f src (Some p) = Inr (toHex buf @ [dot] @ salt)"
    by (simp add: hashPassword_def scryptAsync_def salt_def buf_def Let_def)
  have "split_on dot (toHex buf @ dot # salt) = toHex buf # split_on dot salt"
    by (rule split_on_first_sep) (rule dot_notin_toHex)
  moreover have "split_on dot salt = [salt]"
    unfolding salt_def by (rule split_on_no_sep) (rule dot_notin_toHex)
  ultimately have parts: "split_on dot (toHex buf @ [dot] @ salt) = [toHex buf, salt]"
    by simp
  have "comparePasswords f p (toHex buf @ [dot] @ salt) = timingSafeEqual buf buf"
    unfolding comparePasswords_def parts
    by (simp add: scryptAsync_def fromHex_toHex_id buf_def)
  then have "comparePasswords f p (toHex buf @ [dot] @ salt) = Inr True"
    by (simp add: timingSafeEqual_def)
  with h show ?thesis by blast
qed

text \<open>
  C9. For every password, \<open>hashPassword\<close> draws a salt of 16 bytes from the entropy
  source, derives a key of 64 bytes from the password and the salt (in its
  hexadecimal form), and returns one string: the key in hexadecimal, the delimiter
  \<open>.\<close>, the salt in hexadecimal. The delimiter occurs in neither hexadecimal part,
  so splitting the string at it gives back exactly the two parts.
\<close>

theorem C9_hash_record:
  "\<exists>salt key.
      salt = randomBytes src 16 \<and> length salt = 16
    \<and> scryptAsync f (Some p) (Some (toHex salt)) 64 = Inr key \<and> length key = 64
    \<and> hashPassword f src (Some p) = Inr (toHex key @ [dot] @ toHex salt)
    \<and> length (toHex key) = 128 \<and> length (toHex salt) = 32
    \<and> dot \<notin> set (toHex key) \<and> dot \<notin> set (toHex salt)
    \<and> split_on dot (toHex key @ [dot] @ toHex salt) = [toHex key, toHex salt]"
proof -
  define salt where "salt = randomBytes src 16"
  define key where "key = map (f p (toHex salt) 64) [0..<64]"
  have "length salt = 16" by (simp add: salt_def randomBytes_def)
  moreover have "length key = 64" by (simp add: key_def)
  moreover have "scryptAsync f (Some p) (Some (toHex salt)) 64 = Inr key"
    by (simp add: scryptAsync_def key_def)
  moreover have "hashPassword f src (Some p) = Inr (toHex key @ [dot] @ toHex salt)"
    by (simp add: hashPassword_Some key_def salt_def)
  ultimately show ?thesis
    using dot_notin_toHex [of key] dot_notin_toHex [of salt] split_record [of key salt]
          length_toHex [of key] length_toHex [of salt] salt_def
    by (intro exI [of _ salt] exI [of _ key]) simp
qed

text \<open>
  C4, as the code has it. \<open>comparePasswords\<close> has no error handling of its own, and
  what it does with a stored string, well-formed or not, depends on two things only.
  Call the text before the first delimiter the key part, and the text between the
  first and the second delimiter (or up to the end) the salt part.
  \<^item> A stored string without the delimiter leaves the salt \<open>undefined\<close>, and the key
    derivation throws a \<open>TypeError\<close>.
  \<^item> A stored string with a delimiter whose key part does not decode to exactly 64
    bytes makes the constant-time comparison throw a \<open>RangeError\<close>. (Decoding is
    Node's: it stops at the first pair of code units that is not two hexadecimal
    digits, and it reads the low byte of a code unit only.)
  \<^item> In every other case the call does not throw; it returns whether the 64 decoded
    bytes equal the key derived from the supplied password and the salt part. This
    includes malformed records: text that is not hexadecimal after 128 digits,
    further pieces after a second delimiter, a salt part that is not hexadecimal.
  So it throws exactly in the first two cases, and it returns \<open>false\<close> exactly when
  there is a delimiter and the key part decodes to 64 bytes other than the derived
  key.
\<close>

theorem C4_compare_outcomes:
  "comparePasswords f supplied stored =
     (if dot \<notin> set stored then Inl TypeError
      else if length (fromHex (takeWhile (\<lambda>c. c \<noteq> dot) stored)) \<noteq> 64 then Inl RangeError
      else Inr (fromHex (takeWhile (\<lambda>c. c \<noteq> dot) stored)
                = map (f supplied
                         (takeWhile (\<lambda>c. c \<noteq> dot) (tl (dropWhile (\<lambda>c. c \<noteq> dot) stored))) 64)
                      [0..<64]))
 \<and> ((\<exists>x. comparePasswords f supplied stored = Inl x)
      = (dot \<notin> set stored \<or> length (fromHex (takeWhile (\<lambda>c. c \<noteq> dot) stored)) \<noteq> 64))
 \<and> ((comparePasswords f supplied stored = Inr False)
      = (dot \<in> set stored \<and> length (fromHex (takeWhile (\<lambda>c. c \<noteq> dot) stored)) = 64
         \<and> fromHex (takeWhile (\<lambda>c. c \<noteq> dot) stored)
             \<noteq> map (f supplied
                      (takeWhile (\<lambda>c. c \<noteq> dot) (tl (dropWhile (\<lambda>c. c \<noteq> dot) stored))) 64)
                   [0..<64]))"
proof (cases "dot \<in> set stored")
  case False
  then show ?thesis by (simp add: comparePasswords_no_delimiter)
next
  case True
  from comparePasswords_delimiter [OF True, of f supplied] True
  show ?thesis by (auto simp: timingSafeEqual_def)
qed

lemma dot_notin_literals:
  "dot \<notin> set (js ''dinsxCHMRW16'')" "dot \<notin> set (js ''abcd'')" "dot \<notin> set (js ''zz'')"
  "dot \<notin> set (js ''5a17'')"
  by (simp_all add: js_def dot_def)

lemma fromHex_literals:
  "fromHex (js ''abcd'') = [0xAB, 0xCD]" "fromHex (js ''zz'') = []"
  by (simp_all add: js_def hexval_def unat_unit_of)

lemma replicate_64: "replicate 64 x = x # replicate 63 x"
proof -
  have "(64 :: nat) = Suc 63" by simp
  then show ?thesis by (simp only: replicate_Suc)
qed

lemma example_outcomes:
  "comparePasswords example_kdf (js ''secret'') (js ''dinsxCHMRW16'') = Inl TypeError"
  "comparePasswords example_kdf (js ''secret'') (js ''abcd'' @ [dot] @ js ''5a17'') = Inl RangeError"
  "comparePasswords example_kdf (js ''secret'') (example_record 15) = Inr False"
  "comparePasswords example_kdf (js ''secret'') trailing_text = Inr True"
  "comparePasswords example_kdf (js ''secret'') wide_digit = Inr False"
proof -
  show "comparePasswords example_kdf (js ''secret'') (js ''dinsxCHMRW16'') = Inl TypeError"
    by (rule comparePasswords_no_delimiter) (rule dot_notin_literals)
  show "comparePasswords example_kdf (js ''secret'') (js ''abcd'' @ [dot] @ js ''5a17'') = Inl RangeError"
    using comparePasswords_delimited [OF dot_notin_literals(2), of example_kdf "js ''secret''" "js ''5a17''"]
    by (simp add: fromHex_literals timingSafeEqual_def)
  show "comparePasswords example_kdf (js ''secret'') (example_record 15) = Inr False"
    by (simp add: example_compare)
  have "dot \<notin> set (toHex (replicate 64 (6 :: byte)) @ js ''zz'')"
    using dot_notin_toHex dot_notin_literals by simp
  from comparePasswords_delimited [OF this, of example_kdf "js ''secret''" "js ''5a17'' @ [dot] @ js ''more''"]
  show "comparePasswords example_kdf (js ''secret'') trailing_text = Inr True"
    by (simp add: trailing_text_def fromHex_toHex_append fromHex_literals timingSafeEqual_def
                  example_key)
  have "dot \<notin> set ([0x0162, unit_of CHR ''b''] @ toHex (replicate 63 (0xBB :: byte)))"
    using dot_notin_toHex by (simp add: dot_def unit_of_def)
  from comparePasswords_delimited [OF this, of example_kdf "js ''secret''" "js ''5a17''"]
  show "comparePasswords example_kdf (js ''secret'') wide_digit = Inr False"
    by (simp add: wide_digit_def fromHex_toHex_id hexval_def unat_unit_of timingSafeEqual_def
                  example_key)
       (simp add: replicate_64)
qed

text \<open>
  At concrete inputs: a plain-text password as \<open>generateSecurePassword\<close> makes them
  (it throws), a record with a key part of two bytes (it throws), a well-formed record
  of another password (\<open>false\<close>), and the two malformed records of the sample inputs,
  which do not throw: their key parts decode to 64 bytes.
\<close>

theorem C4_compare_outcomes_witness:
  "comparePasswords example_kdf (js ''secret'') (js ''dinsxCHMRW16'') = Inl TypeError
 \<and> comparePasswords example_kdf (js ''secret'') (js ''abcd'' @ [dot] @ js ''5a17'') = Inl RangeError
 \<and> comparePasswords example_kdf (js ''secret'') (example_record 15) = Inr False
 \<and> comparePasswords example_kdf (js ''secret'') trailing_text = Inr True
 \<and> comparePasswords example_kdf (js ''secret'') wide_digit = Inr False
 \<and> dot \<in> set trailing_text
 \<and> length (fromHex (takeWhile (\<lambda>c. c \<noteq> dot) trailing_text)) = 64
 \<and> dot \<in> set wide_digit
 \<and> length (fromHex (takeWhile (\<lambda>c. c \<noteq> dot) wide_digit)) = 64"
proof -
  note t = C4_compare_outcomes [where f = example_kdf and supplied = "js ''secret''"]
  have 1: "comparePasswords example_kdf (js ''secret'') (js ''dinsxCHMRW16'') = Inl TypeError"
    using t [where stored = "js ''dinsxCHMRW16''"] dot_notin_literals(1) by simp
  have "\<not> (\<exists>x. comparePasswords example_kdf (js ''secret'') trailing_text = Inl x)"
    by (simp add: example_outcomes)
  with t [where stored = trailing_text]
  have 2: "dot \<in> set trailing_text
           \<and> length (fromHex (takeWhile (\<lambda>c. c \<noteq> dot) trailing_text)) = 64"
    by blast
  have "\<not> (\<exists>x. comparePasswords example_kdf (js ''secret'') wide_digit = Inl x)"
    by (simp add: example_outcomes)
  with t [where stored = wide_digit]
  have 3: "dot \<in> set wide_digit
           \<and> length (fromHex (takeWhile (\<lambda>c. c \<noteq> dot) wide_digit)) = 64"
    by blast
  from 1 2 3 example_outcomes show ?thesis by simp
qed

text \<open>
  The claim as the specification states it, "returns false (never throws) on
  malformed stored records", fails on a stored string without a delimiter: the call
  throws.
\<close>

theorem C4_counterexample:
  "comparePasswords example_kdf (js ''secret'') (js ''dinsxCHMRW16'') \<noteq> Inr False
 \<and> comparePasswords example_kdf (js ''secret'') (js ''dinsxCHMRW16'') = Inl TypeError"
  by (simp add: example_outcomes)

section \<open>Facts about the sample storage\<close>

lemma mem_ops [simp]:
  "getUser mem_storage = mem_getUser"
  "getUserByEmail mem_storage = mem_getUserByEmail"
  "upsertUser mem_storage = mem_upsertUser"
  "updateUser mem_storage = mem_updateUser"
  by (simp_all add: mem_storage_def)

lemma example_rows:
  "mem_getUser example_db ''local_1_alice'' = Inr (Some alice)"
  "mem_getUser example_db ''bob'' = Inr (Some bob)"
  "mem_getUser example_db ''root'' = Inr (Some root)"
  by (simp_all add: mem_getUser_def example_db_def has_id_def)
     (simp_all add: alice_def bob_def root_def)

lemma example_ids:
  "user_id alice = ''local_1_alice''" "user_id bob = ''bob''" "user_id root = ''root''"
  by (simp_all add: alice_def bob_def root_def)

lemma example_roles:
  "role alice = Some ''user''" "role bob = Some ''manager''" "role root = Some ''admin''"
  by (simp_all add: alice_def bob_def root_def)

lemma alice_found: "mem_getUserByEmail example_db ''alice@example.com'' = Inr (Some alice)"
  by (simp add: mem_getUserByEmail_def example_db_def has_email_def alice_def)

section \<open>Session resolution\<close>

text \<open>
  C8. Resolving a session fails closed. \<open>deserializeUser\<close> never completes with an
  error and the session strategy never passes one on. When the stored identifier
  has no Principal any more (\<open>getUser\<close> returns nothing), or when the lookup throws,
  \<open>deserializeUser\<close> completes with \<open>false\<close>, the request stays anonymous, the
  serialised user is dropped from the session, and \<open>GET /api/auth/user\<close> answers 401.
  A request is authenticated as \<open>u\<close> only if the store returned \<open>u\<close> for the
  identifier of its session.
\<close>

theorem C8_session_fails_closed:
  "(\<forall>x. deserializeUser sto s i \<noteq> Done_error x)
 \<and> (\<forall>x. passport_session sto s sess \<noteq> Inl x)
 \<and> (getUser sto s i = Inr None \<or> (\<exists>x. getUser sto s i = Inl x)
      \<longrightarrow> deserializeUser sto s i = Done_false None
        \<and> passport_session sto s (Some i) = Inr (None, None)
        \<and> get_auth_user_route sto s (Some i) = (message 401 ''Not authenticated'', None))
 \<and> (\<forall>u sess'. passport_session sto s (Some i) = Inr (Some u, sess')
      \<longrightarrow> getUser sto s i = Inr (Some u))"
  by (auto simp: deserializeUser_def passport_session_def get_auth_user_route_def get_auth_user_def
           split: sum.splits option.splits)

text \<open>
  At concrete inputs: a session of an account that is not in the table, a session
  while the store is down, and a session of an account that is there.
\<close>

theorem C8_session_fails_closed_witness:
  "get_auth_user_route mem_storage example_db (Some ''deleted_account'')
     = (message 401 ''Not authenticated'', None)
 \<and> get_auth_user_route mem_storage (example_db\<lparr>online := False\<rparr>) (Some ''bob'')
     = (message 401 ''Not authenticated'', None)
 \<and> passport_session mem_storage example_db (Some ''bob'') = Inr (Some bob, Some ''bob'')
 \<and> getUser mem_storage example_db ''bob'' = Inr (Some bob)"
proof -
  have gone: "getUser mem_storage example_db ''deleted_account'' = Inr None"
    by (simp add: mem_getUser_def example_db_def has_id_def alice_def bob_def root_def)
  have down: "getUser mem_storage (example_db\<lparr>online := False\<rparr>) ''bob'' = Inl StorageError"
    by (simp add: mem_getUser_def)
  have there: "passport_session mem_storage example_db (Some ''bob'') = Inr (Some bob, Some ''bob'')"
    by (simp add: passport_session_def deserializeUser_def example_rows)
  from C8_session_fails_closed [of mem_storage example_db "''deleted_account''" None] gone
  have 1: "get_auth_user_route mem_storage example_db (Some ''deleted_account'')
             = (message 401 ''Not authenticated'', None)"
    by blast
  from C8_session_fails_closed [of mem_storage "example_db\<lparr>online := False\<rparr>" "''bob''" None] down
  have 2: "get_auth_user_route mem_storage (example_db\<lparr>online := False\<rparr>) (Some ''bob'')
             = (message 401 ''Not authenticated'', None)"
    by blast
  from C8_session_fails_closed [of mem_storage example_db "''bob''" None] there
  have 3: "getUser mem_storage example_db ''bob'' = Inr (Some bob)"
    by blast
  from 1 2 there 3 show ?thesis by blast
qed

section \<open>Role gates\<close>

lemma role_text_cases:
  "(role_text r = ''user'') = (r = User)"
  "(role_text r = ''admin'') = (r = Admin)"
  by (cases r; simp)+

text \<open>
  C7. For a principal whose stored role is one of \<open>user\<close>, \<open>manager\<close>, \<open>admin\<close>, the
  gates of the code decide as the order \<open>user < manager < admin\<close> of the
  specification does. The administrator gates (the middleware \<open>isAdmin\<close> and the
  inline test \<open>user?.role !== "admin"\<close>) answer 403 to \<open>user\<close> and \<open>manager\<close> and let
  \<open>admin\<close> through; the manager gate (the inline test \<open>user?.role === "user"\<close>)
  answers 403 to \<open>user\<close> and lets \<open>manager\<close> and \<open>admin\<close> through.
\<close>

theorem C7_role_gates:
  assumes "getUser sto s (user_id req_user) = Inr (Some u)"
      and "role u = Some (role_text r)"
      and "user_id req_user \<noteq> []"
  shows "isAdmin sto s (Some req_user)
           = (if r = Admin then Next else Respond (message 403 ''Admin access required''))
       \<and> delete_project_role_check sto s req_user
           = (if r = Admin then Next else Respond (message 403 ''Insufficient permissions''))
       \<and> sftp_files_role_check sto s req_user
           = (if r = User
              then Respond (message 403 ''SFTP access requires manager or admin role'')
              else Next)
       \<and> decision_of (isAdmin sto s (Some req_user)) = Some (spec_requireRole r Admin)
       \<and> decision_of (delete_project_role_check sto s req_user) = Some (spec_requireRole r Admin)
       \<and> decision_of (sftp_files_role_check sto s req_user) = Some (spec_requireRole r Manager)
       \<and> spec_requireRole User Admin = Forbidden \<and> spec_requireRole Manager Admin = Forbidden
       \<and> spec_requireRole Admin Admin = Allowed \<and> spec_requireRole User Manager = Forbidden
       \<and> spec_requireRole Manager Manager = Allowed \<and> spec_requireRole Admin Manager = Allowed"
  using assms
  by (cases r)
     (simp_all add: isAdmin_def delete_project_role_check_def sftp_files_role_check_def
        optional_role_def decision_of_def spec_requireRole_def message_def)

text \<open>The three sample principals at the two kinds of gate.\<close>

theorem C7_role_gates_witness:
  "isAdmin mem_storage example_db (Some alice) = Respond (message 403 ''Admin access required'')
 \<and> isAdmin mem_storage example_db (Some bob) = Respond (message 403 ''Admin access required'')
 \<and> isAdmin mem_storage example_db (Some root) = Next
 \<and> sftp_files_role_check mem_storage example_db alice
      = Respond (message 403 ''SFTP access requires manager or admin role'')
 \<and> sftp_files_role_check mem_storage example_db bob = Next
 \<and> sftp_files_role_check mem_storage example_db root = Next"
proof -
  have a: "getUser mem_storage example_db (user_id alice) = Inr (Some alice)"
          "role alice = Some (role_text User)" "user_id alice \<noteq> []"
    by (simp_all add: example_rows example_ids example_roles)
  have b: "getUser mem_storage example_db (user_id bob) = Inr (Some bob)"
          "role bob = Some (role_text Manager)" "user_id bob \<noteq> []"
    by (simp_all add: example_rows example_ids example_roles)
  have c: "getUser mem_storage example_db (user_id root) = Inr (Some root)"
          "role root = Some (role_text Admin)" "user_id root \<noteq> []"
    by (simp_all add: example_rows example_ids example_roles)
  from C7_role_gates [OF a] C7_role_gates [OF b] C7_role_gates [OF c]
  show ?thesis by simp
qed

section \<open>Password reset: request and confirmation\<close>

lemma forgot_password_reads_only: "snd (post_auth_forgot_password sto e s x) = s"
  by (simp add: post_auth_forgot_password_def split: option.splits sum.splits)

text \<open>
  C2, as the code has it. Take a forgot-password request with the email of an
  existing account and one with an email that no account has (both non-empty, the
  storage answering). Both are answered with status 200 and the same \<open>message\<close>
  text. The response for the existing account carries one more field, \<open>resetToken\<close>
  (the handler returns the token "for demo purposes" and has no production switch);
  the response for the absent account has the \<open>message\<close> field only. Neither call
  writes to the storage.
\<close>

theorem C2_forgot_password_responses:
  assumes "em1 \<noteq> []" and "em2 \<noteq> []"
      and "getUserByEmail sto s em1 = Inr (Some u)"
      and "getUserByEmail sto s em2 = Inr None"
  shows "fst (post_auth_forgot_password sto e s (Some em2)) = message 200 reset_link_sent
       \<and> status (fst (post_auth_forgot_password sto e s (Some em1))) = 200
       \<and> field ''message'' (fst (post_auth_forgot_password sto e s (Some em1)))
           = field ''message'' (fst (post_auth_forgot_password sto e s (Some em2)))
       \<and> field ''resetToken'' (fst (post_auth_forgot_password sto e s (Some em1)))
           = Some (JString (new_reset_token e))
       \<and> field ''resetToken'' (fst (post_auth_forgot_password sto e s (Some em2))) = None
       \<and> snd (post_auth_forgot_password sto e s (Some em1)) = s
       \<and> snd (post_auth_forgot_password sto e s (Some em2)) = s"
  using assms by (simp add: post_auth_forgot_password_def field_def message_def)

lemma nobody_absent: "mem_getUserByEmail example_db ''nobody@example.com'' = Inr None"
  by (simp add: mem_getUserByEmail_def example_db_def alice_def bob_def root_def has_email_def
                lower_def lower_char_def)

text \<open>
  With the sample storage: \<open>alice@example.com\<close> has an account,
  \<open>nobody@example.com\<close> has none.
\<close>

theorem C2_forgot_password_responses_witness:
  "fst (post_auth_forgot_password mem_storage example_env example_db (Some ''nobody@example.com''))
     = message 200 reset_link_sent
 \<and> status (fst (post_auth_forgot_password mem_storage example_env example_db
                   (Some ''alice@example.com''))) = 200
 \<and> field ''message'' (fst (post_auth_forgot_password mem_storage example_env example_db
                   (Some ''alice@example.com'')))
     = field ''message'' (fst (post_auth_forgot_password mem_storage example_env example_db
                   (Some ''nobody@example.com'')))
 \<and> field ''resetToken'' (fst (post_auth_forgot_password mem_storage example_env example_db
                   (Some ''alice@example.com''))) = Some (JString (new_reset_token example_env))
 \<and> field ''resetToken'' (fst (post_auth_forgot_password mem_storage example_env example_db
                   (Some ''nobody@example.com''))) = None
 \<and> snd (post_auth_forgot_password mem_storage example_env example_db
                   (Some ''alice@example.com'')) = example_db
 \<and> snd (post_auth_forgot_password mem_storage example_env example_db
                   (Some ''nobody@example.com'')) = example_db"
proof -
  have a: "''alice@example.com'' \<noteq> []" "''nobody@example.com'' \<noteq> []" by simp_all
  have b: "getUserByEmail mem_storage example_db ''alice@example.com'' = Inr (Some alice)"
    by (simp add: alice_found)
  have c: "getUserByEmail mem_storage example_db ''nobody@example.com'' = Inr None"
    by (simp add: nobody_absent)
  show ?thesis
    by (rule C2_forgot_password_responses [OF a b c])
qed

text \<open>
  The claim as stated, that the two responses are identical, fails: the two responses
  of the sample storage differ.
\<close>

theorem C2_counterexample:
  "fst (post_auth_forgot_password mem_storage example_env example_db (Some ''alice@example.com''))
     \<noteq> fst (post_auth_forgot_password mem_storage example_env example_db
              (Some ''nobody@example.com''))"
  by (simp add: post_auth_forgot_password_def alice_found nobody_absent message_def)

lemma reset_token_ignored:
  "t1 \<noteq> [] \<Longrightarrow> t2 \<noteq> [] \<Longrightarrow>
   post_auth_reset_password sto f e s em pw (Some t1)
     = post_auth_reset_password sto f e s em pw (Some t2)"
  by (simp add: post_auth_reset_password_def falsy_def)

lemma reset_no_account:
  "em \<noteq> [] \<Longrightarrow> pw \<noteq> [] \<Longrightarrow> t \<noteq> [] \<Longrightarrow> getUserByEmail sto s em = Inr None \<Longrightarrow>
   post_auth_reset_password sto f e s (Some em) (Some pw) (Some t)
     = (message 400 invalid_reset_link, s)"
  by (simp add: post_auth_reset_password_def falsy_def)

lemma reset_account:
  "em \<noteq> [] \<Longrightarrow> pw \<noteq> [] \<Longrightarrow> t \<noteq> [] \<Longrightarrow> getUserByEmail sto s em = Inr (Some u) \<Longrightarrow>
   hashPassword f (entropy e) (Some pw) = Inr h \<Longrightarrow>
   updateUser sto s (user_id u) h = Inr (updated, s') \<Longrightarrow>
   post_auth_reset_password sto f e s (Some em) (Some pw) (Some t)
     = (message 200 reset_successful, s')"
  by (simp add: post_auth_reset_password_def falsy_def)

text \<open>
  C1, as the code has it. The reset confirmation keeps no registry of tokens and
  does not look at the token beyond requiring a non-empty one ("we'll accept any token
  for demo purposes"). For a non-empty email, new password and token:
  \<^item> the outcome is the same for every token;
  \<^item> when no account has the email, the call fails with the invalid-link error
    (status 400) and writes nothing;
  \<^item> when an account has the email, the new password is hashed (to a record that
    verifies against it), \<open>storage.updateUser\<close> is called with that record for the
    account's \<open>id\<close>, and when it returns the call succeeds: the first time and every
    further time, with the same token or another.
\<close>

theorem C1_reset_accepts_any_token:
  assumes "em \<noteq> []" and "pw \<noteq> []" and "t \<noteq> []" and "t' \<noteq> []"
  shows "post_auth_reset_password sto f e s (Some em) (Some pw) (Some t)
           = post_auth_reset_password sto f e s (Some em) (Some pw) (Some t')
       \<and> (getUserByEmail sto s em = Inr None \<longrightarrow>
            post_auth_reset_password sto f e s (Some em) (Some pw) (Some t)
              = (message 400 invalid_reset_link, s))
       \<and> (\<forall>u. getUserByEmail sto s em = Inr (Some u) \<longrightarrow>
            (\<exists>h. hashPassword f (entropy e) (Some pw) = Inr h
                \<and> comparePasswords f pw h = Inr True
                \<and> (\<forall>updated s'. updateUser sto s (user_id u) h = Inr (updated, s') \<longrightarrow>
                      post_auth_reset_password sto f e s (Some em) (Some pw) (Some t)
                        = (message 200 reset_successful, s'))))"
proof -
  obtain h where h: "hashPassword f (entropy e) (Some pw) = Inr h"
    by (simp add: hashPassword_Some)
  have v: "comparePasswords f pw h = Inr True"
    using h by (rule hash_verifies)
  have 1: "post_auth_reset_password sto f e s (Some em) (Some pw) (Some t)
           = post_auth_reset_password sto f e s (Some em) (Some pw) (Some t')"
    using assms(3,4) by (rule reset_token_ignored)
  have 2: "getUserByEmail sto s em = Inr None \<longrightarrow>
            post_auth_reset_password sto f e s (Some em) (Some pw) (Some t)
              = (message 400 invalid_reset_link, s)"
  proof
    assume "getUserByEmail sto s em = Inr None"
    then show "post_auth_reset_password sto f e s (Some em) (Some pw) (Some t)
                 = (message 400 invalid_reset_link, s)"
      by (rule reset_no_account [OF assms(1,2,3)])
  qed
  have 3: "\<forall>u. getUserByEmail sto s em = Inr (Some u) \<longrightarrow>
            (\<exists>h. hashPassword f (entropy e) (Some pw) = Inr h
                \<and> comparePasswords f pw h = Inr True
                \<and> (\<forall>updated s'. updateUser sto s (user_id u) h = Inr (updated, s') \<longrightarrow>
                      post_auth_reset_password sto f e s (Some em) (Some pw) (Some t)
                        = (message 200 reset_successful, s')))"
  proof (intro allI impI)
    fix u
    assume u: "getUserByEmail sto s em = Inr (Some u)"
    show "\<exists>h. hashPassword f (entropy e) (Some pw) = Inr h
                \<and> comparePasswords f pw h = Inr True
                \<and> (\<forall>updated s'. updateUser sto s (user_id u) h = Inr (updated, s') \<longrightarrow>
                      post_auth_reset_password sto f e s (Some em) (Some pw) (Some t)
                        = (message 200 reset_successful, s'))"
    proof (intro exI [of _ h] conjI allI impI)
      show "hashPassword f (entropy e) (Some pw) = Inr h" by (rule h)
      show "comparePasswords f pw h = Inr True" by (rule v)
    next
      fix updated s'
      assume "updateUser sto s (user_id u) h = Inr (updated, s')"
      then show "post_auth_reset_password sto f e s (Some em) (Some pw) (Some t)
              = (message 200 reset_successful, s')"
        by (rule reset_account [OF assms(1,2,3) u h])
    qed
  qed
  from 1 2 3 show ?thesis by (intro conjI)
qed


lemma has_email_password [simp]: "has_email e (v\<lparr>password := x\<rparr>) = has_email e v"
  by (simp add: has_email_def)

lemma has_id_password [simp]: "has_id i (v\<lparr>password := x\<rparr>) = has_id i v"
  by (simp add: has_id_def)

lemma find_set_password:
  "find (has_email e) (map (\<lambda>v. if has_id i v then v\<lparr>password := Some h\<rparr> else v) rs)
     = map_option (\<lambda>v. if has_id i v then v\<lparr>password := Some h\<rparr> else v) (find (has_email e) rs)"
  by (induction rs) simp_all

lemma find_by_id_of_member:
  "find (has_email e) rs = Some u \<Longrightarrow> \<exists>u'. find (has_id (user_id u)) rs = Some u'"
proof -
  assume "find (has_email e) rs = Some u"
  then have "u \<in> set rs" by (auto simp: find_Some_iff)
  then have "find (has_id (user_id u)) rs \<noteq> None"
    by (auto simp: find_None_iff has_id_def)
  then show ?thesis by auto
qed

lemma mem_reset_succeeds:
  assumes "online d" and "em \<noteq> []" and "pw \<noteq> []" and "t \<noteq> []"
      and "mem_getUserByEmail d em = Inr (Some u)"
  shows "\<exists>h u'. hashPassword f (entropy e) (Some pw) = Inr h
           \<and> post_auth_reset_password mem_storage f e d (Some em) (Some pw) (Some t)
               = (message 200 reset_successful,
                  d\<lparr>rows := map (\<lambda>v. if has_id (user_id u) v then v\<lparr>password := Some h\<rparr> else v)
                               (rows d)\<rparr>)
           \<and> mem_getUserByEmail
                 (snd (post_auth_reset_password mem_storage f e d (Some em) (Some pw) (Some t))) em
               = Inr (Some (u\<lparr>password := Some h\<rparr>))
           \<and> online (snd (post_auth_reset_password mem_storage f e d (Some em) (Some pw) (Some t)))"
proof -
  obtain h where h: "hashPassword f (entropy e) (Some pw) = Inr h"
    by (simp add: hashPassword_Some)
  from assms have f: "find (has_email em) (rows d) = Some u"
    by (simp add: mem_getUserByEmail_def)
  then obtain u' where u': "find (has_id (user_id u)) (rows d) = Some u'"
    using find_by_id_of_member by blast
  let ?d' = "d\<lparr>rows := map (\<lambda>v. if has_id (user_id u) v then v\<lparr>password := Some h\<rparr> else v)
                               (rows d)\<rparr>"
  have upd: "updateUser mem_storage d (user_id u) h = Inr (Some (u'\<lparr>password := Some h\<rparr>), ?d')"
    using assms(1) u' by (simp add: mem_updateUser_def)
  have g: "getUserByEmail mem_storage d em = Inr (Some u)"
    using assms(5) by simp
  have r: "post_auth_reset_password mem_storage f e d (Some em) (Some pw) (Some t)
             = (message 200 reset_successful, ?d')"
    by (rule reset_account [OF assms(2,3,4) g h upd])
  have "mem_getUserByEmail ?d' em = Inr (Some (u\<lparr>password := Some h\<rparr>))"
    using assms(1) f by (simp add: mem_getUserByEmail_def find_set_password) (simp add: has_id_def)
  with h r assms(1) show ?thesis by simp
qed

text \<open>
  The claim as stated fails on the sample storage: a token that was never issued is
  accepted, and a second confirmation with the same token succeeds again instead of
  failing with the invalid-link error.
\<close>

theorem C1_counterexample:
  "fst (post_auth_reset_password mem_storage example_kdf example_env example_db
          (Some ''alice@example.com'') (Some (js ''newpass456'')) (Some ''never-issued''))
     = message 200 reset_successful
 \<and> fst (post_auth_reset_password mem_storage example_kdf example_env
          (snd (post_auth_reset_password mem_storage example_kdf example_env example_db
                  (Some ''alice@example.com'') (Some (js ''newpass456'')) (Some ''never-issued'')))
          (Some ''alice@example.com'') (Some (js ''another789'')) (Some ''never-issued''))
     = message 200 reset_successful"
proof -
  have on: "online example_db" by (simp add: example_db_def)
  have ne: "''alice@example.com'' \<noteq> []" "js ''newpass456'' \<noteq> []" "js ''another789'' \<noteq> []"
           "''never-issued'' \<noteq> []"
    by (simp_all add: js_def)
  from mem_reset_succeeds [OF on ne(1) ne(2) ne(4) alice_found, of example_kdf example_env]
  obtain h where
    1: "fst (post_auth_reset_password mem_storage example_kdf example_env example_db
          (Some ''alice@example.com'') (Some (js ''newpass456'')) (Some ''never-issued''))
         = message 200 reset_successful"
    and g: "mem_getUserByEmail
              (snd (post_auth_reset_password mem_storage example_kdf example_env example_db
                  (Some ''alice@example.com'') (Some (js ''newpass456'')) (Some ''never-issued'')))
              ''alice@example.com'' = Inr (Some (alice\<lparr>password := Some h\<rparr>))"
    and o: "online (snd (post_auth_reset_password mem_storage example_kdf example_env example_db
                  (Some ''alice@example.com'') (Some (js ''newpass456'')) (Some ''never-issued'')))"
    by auto
  from mem_reset_succeeds [OF o ne(1) ne(3) ne(4) g, of example_kdf example_env]
  have "fst (post_auth_reset_password mem_storage example_kdf example_env
          (snd (post_auth_reset_password mem_storage example_kdf example_env example_db
                  (Some ''alice@example.com'') (Some (js ''newpass456'')) (Some ''never-issued'')))
          (Some ''alice@example.com'') (Some (js ''another789'')) (Some ''never-issued''))
     = message 200 reset_successful"
    by auto
  with 1 show ?thesis by simp
qed

text \<open>
  With the sample storage: two different tokens give the same result for Alice's
  account, which is a success; an email without account gives the invalid-link error.
\<close>

theorem C1_reset_accepts_any_token_witness:
  "post_auth_reset_password mem_storage example_kdf example_env example_db
       (Some ''alice@example.com'') (Some (js ''newpass456'')) (Some ''T'')
     = post_auth_reset_password mem_storage example_kdf example_env example_db
       (Some ''alice@example.com'') (Some (js ''newpass456'')) (Some ''another token'')
 \<and> post_auth_reset_password mem_storage example_kdf example_env example_db
       (Some ''nobody@example.com'') (Some (js ''newpass456'')) (Some ''T'')
     = (message 400 invalid_reset_link, example_db)
 \<and> fst (post_auth_reset_password mem_storage example_kdf example_env example_db
       (Some ''alice@example.com'') (Some (js ''newpass456'')) (Some ''T''))
     = message 200 reset_successful"
proof -
  have ne: "''alice@example.com'' \<noteq> []" "''nobody@example.com'' \<noteq> []" "js ''newpass456'' \<noteq> []"
           "''T'' \<noteq> []" "''another token'' \<noteq> []"
    by (simp_all add: js_def)
  have absent: "getUserByEmail mem_storage example_db ''nobody@example.com'' = Inr None"
    by (simp add: nobody_absent)
  have present: "getUserByEmail mem_storage example_db ''alice@example.com'' = Inr (Some alice)"
    by (simp add: alice_found)
  have upd: "\<exists>updated s'. updateUser mem_storage example_db (user_id alice) h = Inr (updated, s')" for h
    by (simp add: mem_updateUser_def example_db_def split: option.splits)
  note a = C1_reset_accepts_any_token [OF ne(1) ne(3) ne(4) ne(5), of mem_storage example_kdf example_env example_db]
  note n = C1_reset_accepts_any_token [OF ne(2) ne(3) ne(4) ne(5), of mem_storage example_kdf example_env example_db]
  from a have 1: "post_auth_reset_password mem_storage example_kdf example_env example_db
       (Some ''alice@example.com'') (Some (js ''newpass456'')) (Some ''T'')
     = post_auth_reset_password mem_storage example_kdf example_env example_db
       (Some ''alice@example.com'') (Some (js ''newpass456'')) (Some ''another token'')"
    by (rule conjunct1)
  from n absent have 2: "post_auth_reset_password mem_storage example_kdf example_env example_db
       (Some ''nobody@example.com'') (Some (js ''newpass456'')) (Some ''T'')
     = (message 400 invalid_reset_link, example_db)"
    by blast
  from a present obtain h where
    "\<forall>updated s'. updateUser mem_storage example_db (user_id alice) h = Inr (updated, s') \<longrightarrow>
        post_auth_reset_password mem_storage example_kdf example_env example_db
          (Some ''alice@example.com'') (Some (js ''newpass456'')) (Some ''T'')
          = (message 200 reset_successful, s')"
    by blast
  with upd [of h] have 3: "fst (post_auth_reset_password mem_storage example_kdf example_env example_db
       (Some ''alice@example.com'') (Some (js ''newpass456'')) (Some ''T''))
     = message 200 reset_successful"
    by auto
  from 1 2 3 show ?thesis by (intro conjI)
qed

section \<open>Facts about registration on the sample storage\<close>

lemma register_duplicate:
  "getUserByEmail sto s em = Inr (Some existing) \<Longrightarrow>
   post_auth_register sto f e s sess em pw fn ln = (message 400 ''User already exists'', s, sess)"
  by (simp add: post_auth_register_def)

lemma register_success:
  assumes "getUserByEmail sto s em = Inr None"
      and "hashPassword f (entropy e) pw = Inr h"
      and "upsertUser sto s \<lparr>user_id = local_id e, email = Some em, firstName = fn,
                               lastName = ln, password = Some h, role = Some ''user''\<rparr>
             = Inr (u, s')"
      and "login_ok e"
  shows "post_auth_register sto f e s sess em pw fn ln
           = (\<lparr>status = 201,
               body = Json [(''user'', JObject (user_fields u)),
                            (''message'', JString ''Registration successful'')]\<rparr>,
              s', Some (user_id u))"
  using assms by (simp add: post_auth_register_def req_login_def serializeUser_def)

lemma has_email_iff:
  "has_email em u = (\<exists>e'. email u = Some e' \<and> lower e' = lower em)"
  by (simp add: has_email_def split: option.splits)

lemma mem_email_found:
  assumes "online d"
  shows "(\<exists>u. mem_getUserByEmail d em = Inr (Some u))
           = (\<exists>u\<in>set (rows d). \<exists>e'. email u = Some e' \<and> lower e' = lower em)"
proof -
  have "(\<exists>u. find (has_email em) (rows d) = Some u) = (\<exists>u\<in>set (rows d). has_email em u)"
    using find_None_iff [of "has_email em" "rows d"] by (cases "find (has_email em) (rows d)") auto
  with assms show ?thesis by (simp add: mem_getUserByEmail_def has_email_iff)
qed

lemma find_snoc:
  "find P (xs @ [x]) = (case find P xs of None \<Rightarrow> (if P x then Some x else None) | Some y \<Rightarrow> Some y)"
  by (induction xs) simp_all

lemma find_put_row:
  "find (has_id (user_id u)) (put_row u rs) = Some u"
proof (cases "list_ex (has_id (user_id u)) rs")
  case True
  have "list_ex (has_id (user_id u)) rs \<Longrightarrow>
        find (has_id (user_id u)) (map (\<lambda>v. if has_id (user_id u) v then u else v) rs) = Some u"
    by (induction rs) (auto simp: has_id_def)
  with True show ?thesis by (simp add: put_row_def)
next
  case False
  then have "find (has_id (user_id u)) rs = None"
    by (simp add: find_None_iff list_ex_iff)
  with False show ?thesis
    by (simp add: put_row_def find_snoc has_id_def)
qed

lemma put_row_fresh:
  "user_id u \<notin> user_id ` set rs \<Longrightarrow> put_row u rs = rs @ [u]"
  by (auto simp: put_row_def list_ex_iff has_id_def image_iff)

section \<open>Provisioning by an administrator\<close>

lemma length_charset: "length charset = 69"
  by (simp add: charset_def)

lemma dot_notin_charset: "dot \<notin> set charset"
  by (simp add: charset_def js_def dot_def)

lemma charAt_in_range: "i < length s \<Longrightarrow> charAt s i = [s ! i]"
  by (simp add: charAt_def)

lemma generate_loop_length:
  "i \<le> 12 \<Longrightarrow> length (generate_loop d i pw) = length pw + (12 - i)"
proof (induction d i pw rule: generate_loop.induct)
  case (1 d i pw)
  show ?case
  proof (cases "i < 12")
    case True
    have "d i mod length charset < length charset" by (simp add: length_charset)
    with True "1.IH" show ?thesis
      by (subst generate_loop.simps) (simp add: charAt_in_range)
  next
    case False
    with "1.prems" show ?thesis by (subst generate_loop.simps) simp
  qed
qed

lemma generate_loop_chars:
  "set (generate_loop d i pw) \<subseteq> set pw \<union> set charset"
proof (induction d i pw rule: generate_loop.induct)
  case (1 d i pw)
  show ?case
  proof (cases "i < 12")
    case True
    have lt: "d i mod length charset < length charset" by (simp add: length_charset)
    then have "charset ! (d i mod length charset) \<in> set charset" by (rule nth_mem)
    with True "1.IH" lt show ?thesis
      by (subst generate_loop.simps) (auto simp: charAt_in_range)
  next
    case False
    then show ?thesis by (subst generate_loop.simps) simp
  qed
qed

lemma temporary_password_shape:
  "length (generateSecurePassword d) = 12"
  "set (generateSecurePassword d) \<subseteq> set charset"
  "dot \<notin> set (generateSecurePassword d)"
  using generate_loop_length [of 0 d "[]"] generate_loop_chars [of d 0 "[]"] dot_notin_charset
  by (auto simp: generateSecurePassword_def)

lemma admin_create:
  assumes "username \<noteq> []" and "em \<noteq> []"
      and "getUser sto s username = Inr None"
      and "upsertUser sto s (userData e username em r) = Inr (newUser, s')"
  shows "post_admin_users sto e s (Some username) (Some em) r
           = (\<lparr>status = 201,
               body = Json (filter (\<lambda>field. fst field \<noteq> ''password'') (user_fields newUser)
                            @ [(''passwordSent'', JBool True),
                               (''message'', JString
                                  ''Benutzer erstellt und Passwort per E-Mail versendet'')])\<rparr>,
              s')"
  using assms by (simp add: post_admin_users_def)

text \<open>
  C10. For a user that an administrator creates, the \<open>password\<close> field of the row
  handed to \<open>storage.upsertUser\<close> is the generated temporary password itself, twelve
  characters of the character set: it is not a hash of it, and it is not a hash
  record at all, so \<open>comparePasswords\<close> throws on it. The handler answers 201 and
  keeps the storage that \<open>upsertUser\<close> returns. On the storage modelled from the
  specification the row is persisted as given: looking the new user up returns the
  row with the plain-text password.
\<close>

theorem C10_provisioned_password_unhashed:
  "password (userData e username em r) = Some (generateSecurePassword (draw e))
 \<and> length (generateSecurePassword (draw e)) = 12
 \<and> set (generateSecurePassword (draw e)) \<subseteq> set charset
 \<and> (\<forall>f src h. hashPassword f src (Some (generateSecurePassword (draw e))) = Inr h
        \<longrightarrow> h \<noteq> generateSecurePassword (draw e))
 \<and> (\<forall>f supplied. comparePasswords f supplied (generateSecurePassword (draw e)) = Inl TypeError)
 \<and> (username \<noteq> [] \<and> em \<noteq> [] \<and> getUser sto s username = Inr None \<longrightarrow>
      (\<forall>newUser s'. upsertUser sto s (userData e username em r) = Inr (newUser, s') \<longrightarrow>
         status (fst (post_admin_users sto e s (Some username) (Some em) r)) = 201
       \<and> snd (post_admin_users sto e s (Some username) (Some em) r) = s')
    \<and> (\<forall>x. upsertUser sto s (userData e username em r) = Inl x \<longrightarrow>
         post_admin_users sto e s (Some username) (Some em) r
           = (message 500 ''Failed to create user'', s)))
 \<and> (online d \<and> username \<noteq> [] \<and> em \<noteq> [] \<and> mem_getUser d username = Inr None
      \<and> \<not> email_taken d (userData e username em r) \<longrightarrow>
      snd (post_admin_users mem_storage e d (Some username) (Some em) r)
        = d\<lparr>rows := rows d @ [userData e username em r]\<rparr>
    \<and> mem_getUser (snd (post_admin_users mem_storage e d (Some username) (Some em) r)) username
        = Inr (Some (userData e username em r)))"
proof (intro conjI allI impI)
  show "password (userData e username em r) = Some (generateSecurePassword (draw e))"
    by (simp add: userData_def)
  show "length (generateSecurePassword (draw e)) = 12"
    by (rule temporary_password_shape)
  show "set (generateSecurePassword (draw e)) \<subseteq> set charset"
    by (rule temporary_password_shape)
next
  fix f src h
  assume "hashPassword f src (Some (generateSecurePassword (draw e))) = Inr h"
  then have "length h = 161"
    by (auto simp: hashPassword_Some length_toHex randomBytes_def)
  then show "h \<noteq> generateSecurePassword (draw e)"
    using temporary_password_shape(1) [of "draw e"] by auto
next
  fix f supplied
  show "comparePasswords f supplied (generateSecurePassword (draw e)) = Inl TypeError"
    by (rule comparePasswords_no_delimiter) (rule temporary_password_shape)
next
  fix newUser s'
  assume a: "username \<noteq> [] \<and> em \<noteq> [] \<and> getUser sto s username = Inr None"
     and u: "upsertUser sto s (userData e username em r) = Inr (newUser, s')"
  from a u have r: "post_admin_users sto e s (Some username) (Some em) r
           = (\<lparr>status = 201,
               body = Json (filter (\<lambda>field. fst field \<noteq> ''password'') (user_fields newUser)
                            @ [(''passwordSent'', JBool True),
                               (''message'', JString
                                  ''Benutzer erstellt und Passwort per E-Mail versendet'')])\<rparr>,
              s')"
    by (simp add: admin_create)
  from r show "status (fst (post_admin_users sto e s (Some username) (Some em) r)) = 201" by simp
  from r show "snd (post_admin_users sto e s (Some username) (Some em) r) = s'" by simp
next
  fix x
  assume "username \<noteq> [] \<and> em \<noteq> [] \<and> getUser sto s username = Inr None"
     and "upsertUser sto s (userData e username em r) = Inl x"
  then show "post_admin_users sto e s (Some username) (Some em) r
           = (message 500 ''Failed to create user'', s)"
    by (simp add: post_admin_users_def)
next
  assume a: "online d \<and> username \<noteq> [] \<and> em \<noteq> [] \<and> mem_getUser d username = Inr None
      \<and> \<not> email_taken d (userData e username em r)"
  then have nf: "find (has_id username) (rows d) = None"
    by (auto simp: mem_getUser_def)
  then have fresh: "user_id (userData e username em r) \<notin> user_id ` set (rows d)"
    by (auto simp: find_None_iff has_id_def userData_def)
  have ups: "upsertUser mem_storage d (userData e username em r)
               = Inr (userData e username em r, d\<lparr>rows := rows d @ [userData e username em r]\<rparr>)"
    using a put_row_fresh [OF fresh] by (simp add: mem_upsertUser_def)
  have g: "getUser mem_storage d username = Inr None" using a by simp
  have r: "snd (post_admin_users mem_storage e d (Some username) (Some em) r)
             = d\<lparr>rows := rows d @ [userData e username em r]\<rparr>"
    using a admin_create [OF _ _ g ups] by simp
  show "snd (post_admin_users mem_storage e d (Some username) (Some em) r)
        = d\<lparr>rows := rows d @ [userData e username em r]\<rparr>"
    by (rule r)
  show "mem_getUser (snd (post_admin_users mem_storage e d (Some username) (Some em) r)) username
        = Inr (Some (userData e username em r))"
    using a nf unfolding r by (simp add: mem_getUser_def find_snoc has_id_def userData_def)
qed


lemma example_temporary_password:
  "generateSecurePassword (draw example_env) = js ''dinsxCHMRW16''"
  by (simp add: generateSecurePassword_def generate_loop.simps charAt_def length_charset example_env_def)
     (simp add: charset_def js_def)

lemma carol_absent: "\<not> list_ex (has_email ''carol@example.com'') (rows example_db)"
  by (simp add: example_db_def alice_def bob_def root_def has_email_def lower_def lower_char_def)

lemma carol_new:
  "mem_getUser example_db ''carol'' = Inr None"
  "\<not> email_taken example_db (userData example_env ''carol'' ''carol@example.com'' None)"
proof -
  show "mem_getUser example_db ''carol'' = Inr None"
    by (simp add: mem_getUser_def example_db_def has_id_def alice_def bob_def root_def)
  show "\<not> email_taken example_db (userData example_env ''carol'' ''carol@example.com'' None)"
    using carol_absent by (simp add: email_taken_def userData_def list_ex_iff)
qed

text \<open>
  On the sample storage: creating \<open>carol\<close> stores the temporary password
  \<open>dinsxCHMRW16\<close> as it is.
\<close>

theorem C10_provisioned_password_unhashed_witness:
  "status (fst (post_admin_users mem_storage example_env example_db
                  (Some ''carol'') (Some ''carol@example.com'') None)) = 201
 \<and> mem_getUser (snd (post_admin_users mem_storage example_env example_db
                  (Some ''carol'') (Some ''carol@example.com'') None)) ''carol''
     = Inr (Some (userData example_env ''carol'' ''carol@example.com'' None))
 \<and> password (userData example_env ''carol'' ''carol@example.com'' None)
     = Some (js ''dinsxCHMRW16'')
 \<and> comparePasswords example_kdf (js ''dinsxCHMRW16'') (js ''dinsxCHMRW16'') = Inl TypeError"
proof -
  note t = C10_provisioned_password_unhashed
             [where e = example_env and username = "''carol''" and em = "''carol@example.com''"
                and r = None and sto = mem_storage and s = example_db and d = example_db]
  have on: "online example_db" by (simp add: example_db_def)
  have ne: "''carol'' \<noteq> []" "''carol@example.com'' \<noteq> []" by simp_all
  have ups: "upsertUser mem_storage example_db
               (userData example_env ''carol'' ''carol@example.com'' None)
             = Inr (userData example_env ''carol'' ''carol@example.com'' None,
                    example_db\<lparr>rows := put_row (userData example_env ''carol'' ''carol@example.com'' None)
                                           (rows example_db)\<rparr>)"
    using on carol_new(2) by (simp add: mem_upsertUser_def)
  have g: "getUser mem_storage example_db ''carol'' = Inr None"
    by (simp add: carol_new)
  from t ne g ups
  have 1: "status (fst (post_admin_users mem_storage example_env example_db
                  (Some ''carol'') (Some ''carol@example.com'') None)) = 201"
    by blast
  from t on ne carol_new
  have 2: "mem_getUser (snd (post_admin_users mem_storage example_env example_db
                  (Some ''carol'') (Some ''carol@example.com'') None)) ''carol''
     = Inr (Some (userData example_env ''carol'' ''carol@example.com'' None))"
    by blast
  from t have 3: "password (userData example_env ''carol'' ''carol@example.com'' None)
                    = Some (generateSecurePassword (draw example_env))"
    by (rule conjunct1)
  from t have "\<forall>f supplied. comparePasswords f supplied (generateSecurePassword (draw example_env))
                  = Inl TypeError"
    by blast
  then have 4: "comparePasswords example_kdf (js ''dinsxCHMRW16'') (js ''dinsxCHMRW16'')
                  = Inl TypeError"
    by (simp add: example_temporary_password)
  from 1 2 3 4 show ?thesis by (simp add: example_temporary_password)
qed





section \<open>Login\<close>














section \<open>Registration\<close>

lemma digit_chars:
  "digit_char 0 = CHR ''0''" "digit_char 1 = CHR ''1''" "digit_char 2 = CHR ''2''"
  "digit_char 3 = CHR ''3''" "digit_char 4 = CHR ''4''" "digit_char 5 = CHR ''5''"
  "digit_char 6 = CHR ''6''" "digit_char 7 = CHR ''7''" "digit_char 8 = CHR ''8''"
  "digit_char 9 = CHR ''9''" "digit_char (Suc 0) = CHR ''1''"
  by code_simp+

lemma example_local_id: "local_id example_env = ''local_1751328000123_4fzyo82mv''"
  by (simp add: local_id_def example_env_def to_radix.simps substr_def digit_chars)


lemma of_char_digit_char: "k < 10 \<Longrightarrow> of_char (digit_char k) = 48 + k"
  by (simp add: digit_char_def)

lemma to_radix_10:
  "to_radix 10 n = (if n < 10 then [digit_char n] else to_radix 10 (n div 10) @ [digit_char (n mod 10)])"
  by (subst to_radix.simps) simp

lemma decimal_value:
  "foldl (\<lambda>a c. 10 * a + (of_char c - 48)) 0 (to_radix 10 n) = n"
proof (induction n rule: less_induct)
  case (less n)
  show ?case
  proof (cases "n < 10")
    case True
    then show ?thesis by (subst to_radix_10) (simp add: of_char_digit_char)
  next
    case False
    then have "n div 10 < n" by simp
    from less.IH [OF this] False show ?thesis
      by (subst to_radix_10) (simp add: of_char_digit_char)
  qed
qed

lemma decimal_inj:
  assumes "to_radix 10 n = to_radix 10 m"
  shows "n = m"
proof -
  have "n = foldl (\<lambda>a c. 10 * a + (of_char c - 48)) 0 (to_radix 10 n)"
    by (simp only: decimal_value)
  also have "\<dots> = foldl (\<lambda>a c. 10 * a + (of_char c - 48)) 0 (to_radix 10 m)"
    by (simp only: assms)
  also have "\<dots> = m"
    by (simp only: decimal_value)
  finally show ?thesis .
qed

lemma decimal_digits: "c \<in> set (to_radix 10 n) \<Longrightarrow> \<exists>k<10. c = digit_char k"
proof (induction n rule: less_induct)
  case (less n)
  show ?case
  proof (cases "n < 10")
    case True
    with less.prems show ?thesis by (subst (asm) to_radix_10) auto
  next
    case False
    then have lt: "n div 10 < n" by simp
    from less.prems False have "c \<in> set (to_radix 10 (n div 10)) \<or> c = digit_char (n mod 10)"
      by (subst (asm) to_radix_10) auto
    then show ?thesis
    proof
      assume "c \<in> set (to_radix 10 (n div 10))"
      then show ?thesis by (rule less.IH [OF lt])
    next
      assume "c = digit_char (n mod 10)"
      then show ?thesis by (intro exI [of _ "n mod 10"]) simp
    qed
  qed
qed

lemma underscore_notin_decimal: "CHR ''_'' \<notin> set (to_radix 10 n)"
proof
  assume "CHR ''_'' \<in> set (to_radix 10 n)"
  then obtain k where k: "k < 10" "CHR ''_'' = digit_char k"
    using decimal_digits by blast
  then have "(of_char CHR ''_'' :: nat) = 48 + k" by (simp add: of_char_digit_char)
  with k(1) show False by simp
qed

lemma takeWhile_sep: "d \<notin> set h \<Longrightarrow> takeWhile (\<lambda>c. c \<noteq> d) (h @ d # r) = h"
  by (induction h) auto

lemma separated_eq:
  assumes "d \<notin> set a" and "d \<notin> set a'" and "a @ d # r = a' @ d # r'"
  shows "a = a' \<and> r = r'"
proof -
  have "takeWhile (\<lambda>c. c \<noteq> d) (a @ d # r) = a" "takeWhile (\<lambda>c. c \<noteq> d) (a' @ d # r') = a'"
    using assms(1,2) by (simp_all add: takeWhile_sep)
  with assms(3) have "a = a'" by simp
  with assms(3) show ?thesis by simp
qed

lemma local_id_eq:
  "(local_id e = local_id e')
     = (now e = now e' \<and> substr (random36 e) 2 9 = substr (random36 e') 2 9)"
proof
  assume "local_id e = local_id e'"
  then have "to_radix 10 (now e) @ CHR ''_'' # substr (random36 e) 2 9
               = to_radix 10 (now e') @ CHR ''_'' # substr (random36 e') 2 9"
    by (simp add: local_id_def)
  from separated_eq [OF underscore_notin_decimal underscore_notin_decimal this]
  show "now e = now e' \<and> substr (random36 e) 2 9 = substr (random36 e') 2 9"
    by (auto dest: decimal_inj)
next
  assume "now e = now e' \<and> substr (random36 e) 2 9 = substr (random36 e') 2 9"
  then show "local_id e = local_id e'" by (simp add: local_id_def)
qed

lemma put_row_existing:
  "user_id u \<in> user_id ` set rs
     \<Longrightarrow> put_row u rs = map (\<lambda>v. if user_id v = user_id u then u else v) rs"
  by (auto simp: put_row_def list_ex_iff has_id_def)

lemma mem_email_free:
  "online d \<Longrightarrow> (mem_getUserByEmail d em = Inr None) = (\<not> list_ex (has_email em) (rows d))"
  by (auto simp: mem_getUserByEmail_def find_None_iff list_ex_iff)

lemma mem_register_new:
  assumes "online d" and "\<not> list_ex (has_email em) (rows d)" and "login_ok e"
      and "hashPassword f (entropy e) (Some p) = Inr h"
  shows "post_auth_register mem_storage f e d sess em (Some p) fn ln
           = (\<lparr>status = 201,
               body = Json [(''user'', JObject (user_fields
                               \<lparr>user_id = local_id e, email = Some em, firstName = fn,
                                lastName = ln, password = Some h, role = Some ''user''\<rparr>)),
                            (''message'', JString ''Registration successful'')]\<rparr>,
              d\<lparr>rows := put_row \<lparr>user_id = local_id e, email = Some em, firstName = fn,
                                  lastName = ln, password = Some h, role = Some ''user''\<rparr>
                               (rows d)\<rparr>,
              Some (local_id e))"
proof -
  let ?u = "\<lparr>user_id = local_id e, email = Some em, firstName = fn,
             lastName = ln, password = Some h, role = Some ''user''\<rparr>"
  have none: "getUserByEmail mem_storage d em = Inr None"
    using assms(1,2) by (simp add: mem_email_free)
  have "\<not> email_taken d ?u"
    using assms(2) by (auto simp: email_taken_def list_ex_iff)
  then have ups: "upsertUser mem_storage d ?u = Inr (?u, d\<lparr>rows := put_row ?u (rows d)\<rparr>)"
    using assms(1) by (simp add: mem_upsertUser_def)
  from register_success [OF none assms(4) ups assms(3), of sess]
  show ?thesis by simp
qed


text \<open>
  C6, as the code has it, on the storage modelled from the specification, while it is
  available.
  \<^item> When some account has the given email, compared without regard to case,
    registration fails with status 400, "User already exists", and changes neither
    the storage nor the session.
  \<^item> Otherwise, with a password in the request and the session layer accepting the
    login, registration hashes the password (to a record that verifies against it),
    builds a Principal with the identifier \<open>local_<time>_<random>\<close>, the given email and
    names, the hash and the role \<open>user\<close>, upserts it, answers 201 with it, and leaves
    a session that holds its identifier and resolves to it.
  \<^item> The identifier is not compared with the identifiers in the storage. When it is
    not yet a key of the table, the table grows by exactly this row. When it is one
    already, the row of that identifier is replaced by the new Principal, and the
    answer is 201 all the same.
  \<^item> Two registrations get the same identifier exactly when they read the same
    clock value and the same nine digits of the random number.
\<close>

theorem C6_register:
  assumes "online d"
  shows "((\<exists>u\<in>set (rows d). \<exists>e'. email u = Some e' \<and> lower e' = lower em) \<longrightarrow>
            post_auth_register mem_storage f e d sess em pw fn ln
              = (message 400 ''User already exists'', d, sess))
       \<and> (\<not> (\<exists>u\<in>set (rows d). \<exists>e'. email u = Some e' \<and> lower e' = lower em) \<and> login_ok e \<longrightarrow>
            (\<exists>h u d'.
                hashPassword f (entropy e) (Some p) = Inr h
              \<and> comparePasswords f p h = Inr True
              \<and> u = \<lparr>user_id = local_id e, email = Some em, firstName = fn, lastName = ln,
                     password = Some h, role = Some ''user''\<rparr>
              \<and> d' = d\<lparr>rows := put_row u (rows d)\<rparr>
              \<and> post_auth_register mem_storage f e d sess em (Some p) fn ln
                  = (\<lparr>status = 201,
                      body = Json [(''user'', JObject (user_fields u)),
                                   (''message'', JString ''Registration successful'')]\<rparr>,
                     d', Some (local_id e))
              \<and> mem_getUser d' (local_id e) = Inr (Some u)
              \<and> passport_session mem_storage d' (Some (local_id e))
                  = Inr (Some u, Some (local_id e))
              \<and> (local_id e \<notin> user_id ` set (rows d) \<longrightarrow> rows d' = rows d @ [u])
              \<and> (local_id e \<in> user_id ` set (rows d) \<longrightarrow>
                    rows d' = map (\<lambda>v. if user_id v = local_id e then u else v) (rows d))))
       \<and> (\<forall>e'. (local_id e = local_id e')
                 = (now e = now e' \<and> substr (random36 e) 2 9 = substr (random36 e') 2 9))"
proof (intro conjI impI allI)
  assume "\<exists>u\<in>set (rows d). \<exists>e'. email u = Some e' \<and> lower e' = lower em"
  with mem_email_found [OF assms, of em]
  obtain existing where "getUserByEmail mem_storage d em = Inr (Some existing)"
    by auto
  then show "post_auth_register mem_storage f e d sess em pw fn ln
              = (message 400 ''User already exists'', d, sess)"
    by (rule register_duplicate)
next
  assume a: "\<not> (\<exists>u\<in>set (rows d). \<exists>e'. email u = Some e' \<and> lower e' = lower em) \<and> login_ok e"
  obtain h where h: "hashPassword f (entropy e) (Some p) = Inr h"
    by (simp add: hashPassword_Some)
  define u where "u = \<lparr>user_id = local_id e, email = Some em, firstName = fn, lastName = ln,
                     password = Some h, role = Some ''user''\<rparr>"
  define d' where "d' = d\<lparr>rows := put_row u (rows d)\<rparr>"
  have id: "user_id u = local_id e"
    by (simp add: u_def)
  have free: "\<not> list_ex (has_email em) (rows d)"
    using a by (simp add: list_ex_iff has_email_iff)
  have lg: "login_ok e" using a by simp
  have r: "post_auth_register mem_storage f e d sess em (Some p) fn ln
             = (\<lparr>status = 201,
                 body = Json [(''user'', JObject (user_fields u)),
                              (''message'', JString ''Registration successful'')]\<rparr>,
                d', Some (local_id e))"
    using mem_register_new [OF assms free lg h, of sess fn ln] by (simp add: u_def d'_def)
  have g: "mem_getUser d' (local_id e) = Inr (Some u)"
    using assms find_put_row [of u "rows d"] id by (simp add: mem_getUser_def d'_def)
  have rs: "passport_session mem_storage d' (Some (local_id e)) = Inr (Some u, Some (local_id e))"
    using g by (simp add: passport_session_def deserializeUser_def)
  have fr: "local_id e \<notin> user_id ` set (rows d) \<longrightarrow> rows d' = rows d @ [u]"
    using put_row_fresh [of u "rows d"] id by (simp add: d'_def)
  have ov: "local_id e \<in> user_id ` set (rows d) \<longrightarrow>
              rows d' = map (\<lambda>v. if user_id v = local_id e then u else v) (rows d)"
    using put_row_existing [of u "rows d"] id by (simp add: d'_def)
  from h hash_verifies [OF h] u_def d'_def r g rs fr ov
  show "\<exists>h u d'.
                hashPassword f (entropy e) (Some p) = Inr h
              \<and> comparePasswords f p h = Inr True
              \<and> u = \<lparr>user_id = local_id e, email = Some em, firstName = fn, lastName = ln,
                     password = Some h, role = Some ''user''\<rparr>
              \<and> d' = d\<lparr>rows := put_row u (rows d)\<rparr>
              \<and> post_auth_register mem_storage f e d sess em (Some p) fn ln
                  = (\<lparr>status = 201,
                      body = Json [(''user'', JObject (user_fields u)),
                                   (''message'', JString ''Registration successful'')]\<rparr>,
                     d', Some (local_id e))
              \<and> mem_getUser d' (local_id e) = Inr (Some u)
              \<and> passport_session mem_storage d' (Some (local_id e))
                  = Inr (Some u, Some (local_id e))
              \<and> (local_id e \<notin> user_id ` set (rows d) \<longrightarrow> rows d' = rows d @ [u])
              \<and> (local_id e \<in> user_id ` set (rows d) \<longrightarrow>
                    rows d' = map (\<lambda>v. if user_id v = local_id e then u else v) (rows d))"
    by (intro exI [of _ h] exI [of _ u] exI [of _ d']) simp
next
  fix e'
  show "(local_id e = local_id e')
          = (now e = now e' \<and> substr (random36 e) 2 9 = substr (random36 e') 2 9)"
    by (rule local_id_eq)
qed

lemma new_emails:
  "\<not> list_ex (has_email ''dave@example.com'') (rows example_db)"
  "\<not> list_ex (has_email ''erin@example.com'') (rows example_db)"
  "lower ''dave@example.com'' \<noteq> lower ''erin@example.com''"
  by (simp_all add: example_db_def alice_def bob_def root_def has_email_def lower_def lower_char_def)

lemma example_id_new: "local_id example_env \<notin> user_id ` set (rows example_db)"
  by (simp add: example_local_id example_db_def alice_def bob_def root_def)

lemma put_row_last:
  assumes "user_id v = i" and "user_id u = i" and "i \<notin> user_id ` set rs"
  shows "put_row u (rs @ [v]) = rs @ [u]"
proof -
  have "map (\<lambda>w. if has_id (user_id u) w then u else w) rs = rs"
    using assms(2,3) by (intro map_idI) (auto simp: has_id_def image_iff)
  with assms(1,2) show ?thesis
    by (simp add: put_row_def has_id_def)
qed

lemma dave_db_rows:
  "\<exists>h. dave_db = example_db\<lparr>rows := rows example_db
             @ [\<lparr>user_id = local_id example_env, email = Some ''dave@example.com'',
                 firstName = Some ''Dave'', lastName = None,
                 password = Some h, role = Some ''user''\<rparr>]\<rparr>"
proof -
  obtain h where h: "hashPassword example_kdf (entropy example_env) (Some (js ''correcthorse123'')) = Inr h"
    by (simp add: hashPassword_Some)
  have on: "online example_db" by (simp add: example_db_def)
  have lg: "login_ok example_env" by (simp add: example_env_def)
  from mem_register_new [OF on new_emails(1) lg h, of None "Some ''Dave''" None]
       put_row_fresh [OF _, of _ "rows example_db"] example_id_new
  have "dave_db = example_db\<lparr>rows := rows example_db
             @ [\<lparr>user_id = local_id example_env, email = Some ''dave@example.com'',
                 firstName = Some ''Dave'', lastName = None,
                 password = Some h, role = Some ''user''\<rparr>]\<rparr>"
    by (simp add: dave_db_def)
  then show ?thesis by blast
qed

text \<open>
  The claim as stated, "assigns a fresh identifier, persists a new Principal", fails
  when a second registration reads the same clock value and random number as the
  one that created \<open>dave@example.com\<close>: it is answered 201, the table has as many rows
  as before, and Dave's account is gone.
\<close>

theorem C6_counterexample:
  "mem_getUserByEmail dave_db ''dave@example.com'' \<noteq> Inr None
 \<and> status (fst (post_auth_register mem_storage example_kdf example_env dave_db None
                  ''erin@example.com'' (Some (js ''hunter2hunter2'')) (Some ''Erin'') None)) = 201
 \<and> mem_getUserByEmail
      (fst (snd (post_auth_register mem_storage example_kdf example_env dave_db None
                  ''erin@example.com'' (Some (js ''hunter2hunter2'')) (Some ''Erin'') None)))
      ''dave@example.com'' = Inr None
 \<and> length (rows (fst (snd (post_auth_register mem_storage example_kdf example_env dave_db None
                  ''erin@example.com'' (Some (js ''hunter2hunter2'')) (Some ''Erin'') None))))
     = length (rows dave_db)"
proof -
  obtain h1 where d: "dave_db = example_db\<lparr>rows := rows example_db
             @ [\<lparr>user_id = local_id example_env, email = Some ''dave@example.com'',
                 firstName = Some ''Dave'', lastName = None,
                 password = Some h1, role = Some ''user''\<rparr>]\<rparr>"
    using dave_db_rows by blast
  obtain h2 where h2: "hashPassword example_kdf (entropy example_env) (Some (js ''hunter2hunter2'')) = Inr h2"
    by (simp add: hashPassword_Some)
  have on: "online dave_db" by (simp add: d example_db_def)
  have lg: "login_ok example_env" by (simp add: example_env_def)
  have none_dave: "find (has_email ''dave@example.com'') (rows example_db) = None"
    using new_emails(1) by (simp add: find_None_iff list_ex_iff)
  have 1: "mem_getUserByEmail dave_db ''dave@example.com'' \<noteq> Inr None"
    using none_dave by (simp add: d mem_getUserByEmail_def find_snoc has_email_def)
  have free: "\<not> list_ex (has_email ''erin@example.com'') (rows dave_db)"
    using new_emails(2,3) by (simp add: d has_email_def)
  have rows2: "put_row \<lparr>user_id = local_id example_env, email = Some ''erin@example.com'',
                        firstName = Some ''Erin'', lastName = None,
                        password = Some h2, role = Some ''user''\<rparr> (rows dave_db)
               = rows example_db
                 @ [\<lparr>user_id = local_id example_env, email = Some ''erin@example.com'',
                     firstName = Some ''Erin'', lastName = None,
                     password = Some h2, role = Some ''user''\<rparr>]"
    using put_row_last [OF _ _ example_id_new] by (simp add: d)
  note r = mem_register_new [OF on free lg h2, of None "Some ''Erin''" None]
  have 2: "status (fst (post_auth_register mem_storage example_kdf example_env dave_db None
                  ''erin@example.com'' (Some (js ''hunter2hunter2'')) (Some ''Erin'') None)) = 201"
    by (simp add: r)
  have 3: "mem_getUserByEmail
      (fst (snd (post_auth_register mem_storage example_kdf example_env dave_db None
                  ''erin@example.com'' (Some (js ''hunter2hunter2'')) (Some ''Erin'') None)))
      ''dave@example.com'' = Inr None"
    using none_dave new_emails(3) on
    by (simp add: r rows2 mem_getUserByEmail_def find_snoc has_email_def)
  have 4: "length (rows (fst (snd (post_auth_register mem_storage example_kdf example_env dave_db None
                  ''erin@example.com'' (Some (js ''hunter2hunter2'')) (Some ''Erin'') None))))
     = length (rows dave_db)"
    by (simp add: r rows2) (simp add: d)
  from 1 2 3 4 show ?thesis by (intro conjI)
qed


lemma alice_other_case: "lower ''alice@example.com'' = lower ''Alice@Example.COM''"
  by code_simp

text \<open>
  On the sample storage: Alice's email in another spelling is a duplicate; Dave's
  email is new and his identifier is not yet a key; a clock value one millisecond
  later gives another identifier.
\<close>

theorem C6_register_witness:
  "post_auth_register mem_storage example_kdf example_env example_db None
       ''Alice@Example.COM'' (Some (js ''correcthorse123'')) None None
     = (message 400 ''User already exists'', example_db, None)
 \<and> status (fst (post_auth_register mem_storage example_kdf example_env example_db None
       ''dave@example.com'' (Some (js ''correcthorse123'')) (Some ''Dave'') None)) = 201
 \<and> snd (snd (post_auth_register mem_storage example_kdf example_env example_db None
       ''dave@example.com'' (Some (js ''correcthorse123'')) (Some ''Dave'') None))
     = Some (local_id example_env)
 \<and> (\<exists>u. mem_getUser dave_db (local_id example_env) = Inr (Some u)
        \<and> role u = Some ''user'' \<and> email u = Some ''dave@example.com''
        \<and> rows dave_db = rows example_db @ [u])
 \<and> local_id example_env \<noteq> local_id (example_env\<lparr>now := 1751328000124\<rparr>)"
proof -
  have on: "online example_db" by (simp add: example_db_def)
  have dup: "\<exists>u\<in>set (rows example_db). \<exists>e'. email u = Some e' \<and> lower e' = lower ''Alice@Example.COM''"
    using alice_other_case by (simp add: example_db_def alice_def)
  have new: "\<not> (\<exists>u\<in>set (rows example_db). \<exists>e'. email u = Some e' \<and> lower e' = lower ''dave@example.com'')
               \<and> login_ok example_env"
    using new_emails(1) by (simp add: list_ex_iff has_email_iff example_env_def)
  note a = C6_register [OF on, where f = example_kdf and e = example_env and sess = None
                          and em = "''Alice@Example.COM''" and pw = "Some (js ''correcthorse123'')"
                          and fn = None and ln = None and p = "js ''correcthorse123''"]
  note n = C6_register [OF on, where f = example_kdf and e = example_env and sess = None
                          and em = "''dave@example.com''" and pw = None
                          and fn = "Some ''Dave''" and ln = None and p = "js ''correcthorse123''"]
  from a dup
  have 1: "post_auth_register mem_storage example_kdf example_env example_db None
       ''Alice@Example.COM'' (Some (js ''correcthorse123'')) None None
     = (message 400 ''User already exists'', example_db, None)"
    by blast
  from n new
  obtain h u d' where
    u: "u = \<lparr>user_id = local_id example_env, email = Some ''dave@example.com'',
            firstName = Some ''Dave'', lastName = None,
            password = Some h, role = Some ''user''\<rparr>"
    and r: "post_auth_register mem_storage example_kdf example_env example_db None
              ''dave@example.com'' (Some (js ''correcthorse123'')) (Some ''Dave'') None
            = (\<lparr>status = 201,
                  body = Json [(''user'', JObject (user_fields u)),
                               (''message'', JString ''Registration successful'')]\<rparr>,
               d', Some (local_id example_env))"
    and g: "mem_getUser d' (local_id example_env) = Inr (Some u)"
    and fr: "local_id example_env \<notin> user_id ` set (rows example_db)
               \<longrightarrow> rows d' = rows example_db @ [u]"
    by blast
  have d': "dave_db = d'" by (simp add: dave_db_def r)
  from fr example_id_new have rows: "rows d' = rows example_db @ [u]" by blast
  from n have "(local_id example_env = local_id (example_env\<lparr>now := 1751328000124\<rparr>))
                 = (now example_env = now (example_env\<lparr>now := 1751328000124\<rparr>)
                    \<and> substr (random36 example_env) 2 9
                        = substr (random36 (example_env\<lparr>now := 1751328000124\<rparr>)) 2 9)"
    by blast
  then have 5: "local_id example_env \<noteq> local_id (example_env\<lparr>now := 1751328000124\<rparr>)"
    by (simp add: example_env_def)
  have 4: "\<exists>u. mem_getUser dave_db (local_id example_env) = Inr (Some u)
        \<and> role u = Some ''user'' \<and> email u = Some ''dave@example.com''
        \<and> rows dave_db = rows example_db @ [u]"
    using g rows u d' by (intro exI [of _ u]) simp
  from 1 r 4 5 show ?thesis by simp
qed

end
